theory Spec2Isabelle
  imports Main "HOL-Library.AList" "HOL-Library.Char_ord" "HOL-Library.List_Lexorder"
    "HOL-Library.Product_Lexorder" "HOL-Library.Multiset"
begin

section \<open>Python values and strings\<close>

text \<open>
  The model follows \<^verbatim>\<open>db_sensitive_audit/database_auditor.py\<close>. A Python \<^verbatim>\<open>str\<close> is a
  \<^typ>\<open>string\<close>; one \<^typ>\<open>char\<close> stands for one character, so the model covers the
  characters below U+0100. The fixed Chinese labels of the source are only compared and
  ordered, never measured; they are written as their UTF-8 bytes, whose lexicographic
  order is the order of the code points.
\<close>

datatype pyval =
    PNone
  | PBool bool
  | PInt int
  | PFloat string  \<comment> \<open>a float, carried as the text \<^verbatim>\<open>str()\<close> gives for it\<close>
  | PStr string
  | POther string  \<comment> \<open>any other object (Decimal, datetime, bytes, ...), carried as its \<^verbatim>\<open>str()\<close>\<close>

datatype py_error = ValueError | AttributeError | OverflowError | RecursionError

definition digit_char :: "nat \<Rightarrow> char" where
  "digit_char d = char_of (48 + d)"

function str_nat :: "nat \<Rightarrow> string" where
  "str_nat n = (if n < 10 then [digit_char n] else str_nat (n div 10) @ [digit_char (n mod 10)])"
  by pat_completeness auto
termination
  by (relation "measure id") auto

definition str_int :: "int \<Rightarrow> string" where
  "str_int i = (if i < 0 then CHR ''-'' # str_nat (nat (- i)) else str_nat (nat i))"

text \<open>\<^verbatim>\<open>str(value)\<close>.\<close>

fun py_str :: "pyval \<Rightarrow> string" where
  "py_str PNone = ''None''"
| "py_str (PBool b) = (if b then ''True'' else ''False'')"
| "py_str (PInt i) = str_int i"
| "py_str (PFloat s) = s"
| "py_str (PStr s) = s"
| "py_str (POther s) = s"

text \<open>
  \<^verbatim>\<open>str.isspace\<close> on one character below U+0100: TAB to CR, FS to US, space, NEL and
  the no-break space.
\<close>

definition py_isspace :: "char \<Rightarrow> bool" where
  "py_isspace c = (let n = (of_char c :: nat) in
     (9 \<le> n \<and> n \<le> 13) \<or> (28 \<le> n \<and> n \<le> 32) \<or> n = 133 \<or> n = 160)"

text \<open>\<^verbatim>\<open>s.strip()\<close>.\<close>

definition py_strip :: "string \<Rightarrow> string" where
  "py_strip s = rev (dropWhile py_isspace (rev (dropWhile py_isspace s)))"

text \<open>\<^verbatim>\<open>s.lower()\<close>: A to Z, and the capital letters of Latin-1 (U+00D7 is the times sign).\<close>

definition py_lower_char :: "char \<Rightarrow> char" where
  "py_lower_char c = (let n = (of_char c :: nat) in
     if (65 \<le> n \<and> n \<le> 90) \<or> (192 \<le> n \<and> n \<le> 222 \<and> n \<noteq> 215) then char_of (n + 32) else c)"

definition py_lower :: "string \<Rightarrow> string" where
  "py_lower s = map py_lower_char s"

fun starts_with :: "string \<Rightarrow> string \<Rightarrow> bool" where
  "starts_with [] s = True"
| "starts_with (a # as) [] = False"
| "starts_with (a # as) (b # bs) = (a = b \<and> starts_with as bs)"

text \<open>\<^verbatim>\<open>sub in s\<close> on strings.\<close>

fun py_in :: "string \<Rightarrow> string \<Rightarrow> bool" where
  "py_in sub [] = (sub = [])"
| "py_in sub (c # cs) = (starts_with sub (c # cs) \<or> py_in sub cs)"

text \<open>\<^verbatim>\<open>sep.join(xs)\<close>.\<close>

fun py_join :: "string \<Rightarrow> string list \<Rightarrow> string" where
  "py_join sep [] = []"
| "py_join sep [x] = x"
| "py_join sep (x # y # ys) = x @ sep @ py_join sep (y # ys)"

text \<open>\<^verbatim>\<open>s.split(sep)\<close> for a separator of one character.\<close>

fun py_split :: "char \<Rightarrow> string \<Rightarrow> string list" where
  "py_split sep [] = [[]]"
| "py_split sep (c # cs) =
     (if c = sep then [] # py_split sep cs
      else (case py_split sep cs of [] \<Rightarrow> [[c]] | w # ws \<Rightarrow> (c # w) # ws))"

section \<open>The logger\<close>

datatype level = INFO | WARNING | ERROR

type_synonym log_entry = "level \<times> string"

section \<open>The rule store\<close>

text \<open>
  The rule configuration is the dictionary \<^verbatim>\<open>json.load\<close> returns. A key that may be
  absent is an \<open>option\<close>; the reader supplies the default, as \<^verbatim>\<open>dict.get(key, default)\<close>
  does. The rules are an association list in the order of the file.
\<close>

record rule_config =
  field_keywords :: "string list option"
  regex_patterns :: "string list option"
  description :: "string option"

record settings =
  enabled_rules :: "string list option"
  case_sensitive :: "bool option"
  max_field_length :: "int option"
  exclude_test_data :: "bool option"
  test_patterns :: "string list option"

record rules_config =
  sensitive_rules :: "(string \<times> rule_config) list option"
  settings :: "settings option"

text \<open>\<^verbatim>\<open>d.get(key, default)\<close> where the key may be absent.\<close>

definition get_or :: "'a option \<Rightarrow> 'a \<Rightarrow> 'a" where
  "get_or v d = (case v of None \<Rightarrow> d | Some x \<Rightarrow> x)"

text \<open>
  What \<^verbatim>\<open>load_sensitive_rules\<close> finds at \<^verbatim>\<open>config/sensitive_rules.json\<close>: no file, a file
  whose opening or parsing raises (with the text of the exception), or a file that
  parses to a configuration.
\<close>

datatype rule_file = Absent | Unloadable string | Loaded rules_config

text \<open>The key U+624B U+673A U+53F7 (phone number) and its description.\<close>

definition rule_phone :: string where
  "rule_phone = [CHR 0xE6, CHR 0x89, CHR 0x8B, CHR 0xE6, CHR 0x9C, CHR 0xBA, CHR 0xE5, CHR 0x8F, CHR 0xB7]"

definition desc_phone :: string where
  "desc_phone = [CHR 0xE4, CHR 0xB8, CHR 0xAD, CHR 0xE5, CHR 0x9B, CHR 0xBD, CHR 0xE6, CHR 0x89, CHR 0x8B,
     CHR 0xE6, CHR 0x9C, CHR 0xBA, CHR 0xE5, CHR 0x8F, CHR 0xB7]"

text \<open>The pattern \<^verbatim>\<open>^1[3-9]\d{9}$\<close>.\<close>

definition phone_pattern :: string where
  "phone_pattern = [CHR ''^'', CHR ''1'', CHR ''['', CHR ''3'', CHR ''-'', CHR ''9'', CHR '']'',
     CHR 0x5C, CHR ''d'', CHR ''{'', CHR ''9'', CHR ''}'', CHR ''$'']"

definition get_default_rules :: rules_config where
  "get_default_rules =
     \<lparr> sensitive_rules = Some [(rule_phone,
         \<lparr> field_keywords = Some [''phone'', ''mobile'', ''telephone''],
           regex_patterns = Some [phone_pattern],
           description = Some desc_phone \<rparr>)],
       settings = Some
         \<lparr> enabled_rules = Some [rule_phone],
           case_sensitive = Some False,
           max_field_length = Some 100,
           exclude_test_data = Some True,
           test_patterns = Some [''test'', ''demo'', ''example'', ''sample'', ''fake''] \<rparr> \<rparr>"

definition rules_file :: string where
  "rules_file = ''config/sensitive_rules.json''"

text \<open>The two messages of \<^verbatim>\<open>load_sensitive_rules\<close>, around the interpolated text.\<close>

definition msg_rules_missing :: "string \<Rightarrow> string" where
  "msg_rules_missing f =
     [CHR 0xE6, CHR 0x95, CHR 0x8F, CHR 0xE6, CHR 0x84, CHR 0x9F, CHR 0xE4, CHR 0xBF, CHR 0xA1, CHR 0xE6,
      CHR 0x81, CHR 0xAF, CHR 0xE8, CHR 0xA7, CHR 0x84, CHR 0xE5, CHR 0x88, CHR 0x99, CHR 0xE6, CHR 0x96,
      CHR 0x87, CHR 0xE4, CHR 0xBB, CHR 0xB6, CHR 0xE4, CHR 0xB8, CHR 0x8D, CHR 0xE5, CHR 0xAD, CHR 0x98,
      CHR 0xE5, CHR 0x9C, CHR 0xA8] @ '': '' @ f @
     [CHR 0xEF, CHR 0xBC, CHR 0x8C, CHR 0xE4, CHR 0xBD, CHR 0xBF, CHR 0xE7, CHR 0x94, CHR 0xA8, CHR 0xE9,
      CHR 0xBB, CHR 0x98, CHR 0xE8, CHR 0xAE, CHR 0xA4, CHR 0xE8, CHR 0xA7, CHR 0x84, CHR 0xE5, CHR 0x88,
      CHR 0x99]"

definition msg_rules_failed :: "string \<Rightarrow> string" where
  "msg_rules_failed e =
     [CHR 0xE5, CHR 0x8A, CHR 0xA0, CHR 0xE8, CHR 0xBD, CHR 0xBD, CHR 0xE6, CHR 0x95, CHR 0x8F, CHR 0xE6,
      CHR 0x84, CHR 0x9F, CHR 0xE4, CHR 0xBF, CHR 0xA1, CHR 0xE6, CHR 0x81, CHR 0xAF, CHR 0xE8, CHR 0xA7,
      CHR 0x84, CHR 0xE5, CHR 0x88, CHR 0x99, CHR 0xE5, CHR 0xA4, CHR 0xB1, CHR 0xE8, CHR 0xB4, CHR 0xA5] @
     '': '' @ e @
     [CHR 0xEF, CHR 0xBC, CHR 0x8C, CHR 0xE4, CHR 0xBD, CHR 0xBF, CHR 0xE7, CHR 0x94, CHR 0xA8, CHR 0xE9,
      CHR 0xBB, CHR 0x98, CHR 0xE8, CHR 0xAE, CHR 0xA4, CHR 0xE8, CHR 0xA7, CHR 0x84, CHR 0xE5, CHR 0x88,
      CHR 0x99]"

text \<open>
  \<^verbatim>\<open>load_sensitive_rules\<close>: the configuration returned and what was logged. Every
  exception of the \<^verbatim>\<open>try\<close> block is caught, so there is no error result.
\<close>

definition load_sensitive_rules :: "rule_file \<Rightarrow> rules_config \<times> log_entry list" where
  "load_sensitive_rules env =
     (case env of
        Loaded cfg \<Rightarrow> (cfg, [])
      | Absent \<Rightarrow> (get_default_rules, [(WARNING, msg_rules_missing rules_file)])
      | Unloadable e \<Rightarrow> (get_default_rules, [(ERROR, msg_rules_failed e)]))"

section \<open>The regular-expression engine\<close>

text \<open>
  \<^verbatim>\<open>re.match(pattern, s)\<close> belongs to the Python library, so it is a parameter of the
  model: a function from the pattern and the string to an outcome. A match object is
  truthy, \<^verbatim>\<open>None\<close> is not, and \<^verbatim>\<open>re.error\<close> is what the \<^verbatim>\<open>except\<close> clauses of lines 192
  and 258 catch. Any other exception of the engine (\<^verbatim>\<open>OverflowError\<close> for a repetition
  count that is too large, \<^verbatim>\<open>RecursionError\<close> for a pattern nested too deeply) is not
  caught there and leaves the function that called \<^verbatim>\<open>re.match\<close>.
\<close>

datatype re_result = Matched | NoMatch | ReError | ReRaised py_error

type_synonym matcher = "string \<Rightarrow> string \<Rightarrow> re_result"

section \<open>The classifier\<close>

text \<open>
  The result of \<^verbatim>\<open>identify_sensitive_info\<close> is a dictionary from rule name to a
  dictionary from column to the dictionary of a column match. \<^verbatim>\<open>confirm_sensitive_data\<close>
  takes a \<^verbatim>\<open>Dict[str, Any]\<close>, so both inner levels may hold something that is not a
  dictionary. Dictionaries are association lists in insertion order; \<open>AList.update\<close>
  overwrites a present key in place and appends an absent one, as a \<^verbatim>\<open>dict\<close> does.
\<close>

datatype field_info = FDict "(string \<times> pyval) list" | FNotDict pyval

datatype detected = DDict "(string \<times> field_info) list" | DNotDict pyval

type_synonym sens_info = "(string \<times> detected) list"

text \<open>The dictionary stored at line 209.\<close>

definition column_match :: "pyval \<Rightarrow> bool \<Rightarrow> bool \<Rightarrow> field_info" where
  "column_match display_value is_field_match is_value_match =
     FDict [(''value'', display_value), (''field_match'', PBool is_field_match),
            (''value_match'', PBool is_value_match)]"

text \<open>Lines 166 to 172: the keyword loop with its \<^verbatim>\<open>break\<close>.\<close>

definition field_name_match :: "bool \<Rightarrow> string list \<Rightarrow> string \<Rightarrow> bool" where
  "field_name_match cs keywords column =
     (let column_check = (if \<not> cs then py_lower column else column)
      in list_ex (\<lambda>keyword. py_in (if \<not> cs then py_lower keyword else keyword) column_check)
           keywords)"

text \<open>
  Lines 187 to 194, and 253 to 259: the pattern loop. A pattern that raises
  \<^verbatim>\<open>re.error\<close> is passed over; any other exception ends the loop and is passed on.
\<close>

fun value_pattern_match :: "matcher \<Rightarrow> string list \<Rightarrow> string \<Rightarrow> py_error + bool" where
  "value_pattern_match rm [] s = Inr False"
| "value_pattern_match rm (pattern # ps) s =
     (case rm pattern s of
        Matched \<Rightarrow> Inr True
      | NoMatch \<Rightarrow> value_pattern_match rm ps s
      | ReError \<Rightarrow> value_pattern_match rm ps s
      | ReRaised e \<Rightarrow> Inl e)"

text \<open>Line 180: the test-data exclusion.\<close>

definition is_test_data :: "bool \<Rightarrow> string list \<Rightarrow> string \<Rightarrow> bool" where
  "is_test_data exclude pats str_value =
     (exclude \<and> list_ex (\<lambda>pattern. py_in (py_lower pattern) (py_lower str_value)) pats)"

text \<open>Lines 202 to 207: the value shown.\<close>

definition display_value :: "pyval \<Rightarrow> pyval" where
  "display_value v =
     (case v of
        PNone \<Rightarrow> PNone
      | _ \<Rightarrow> (let d = py_strip (py_str v)
              in PStr (if length d > 50 then take 50 d @ ''...'' else d)))"

text \<open>
  Lines 198 to 213: \<^verbatim>\<open>sensitive_info[rule_name][column] = {...}\<close>, after the inner
  dictionary is created when the rule name is new. Only this function writes to the
  result, so the entry under a rule name is always a dictionary.
\<close>

definition fields_of :: "sens_info \<Rightarrow> string \<Rightarrow> (string \<times> field_info) list" where
  "fields_of info rule_name =
     (case map_of info rule_name of Some (DDict d) \<Rightarrow> d | _ \<Rightarrow> [])"

definition store_match :: "string \<Rightarrow> string \<Rightarrow> field_info \<Rightarrow> sens_info \<Rightarrow> sens_info" where
  "store_match rule_name column m info =
     AList.update rule_name (DDict (AList.update column m (fields_of info rule_name))) info"

text \<open>Lines 145 to 149: the settings read, each with its default.\<close>

definition get_enabled_rules :: "settings option \<Rightarrow> string list" where
  "get_enabled_rules st = (case st of None \<Rightarrow> [] | Some s \<Rightarrow> get_or (enabled_rules s) [])"

definition get_case_sensitive :: "settings option \<Rightarrow> bool" where
  "get_case_sensitive st = (case st of None \<Rightarrow> False | Some s \<Rightarrow> get_or (case_sensitive s) False)"

definition get_max_field_length :: "settings option \<Rightarrow> int" where
  "get_max_field_length st = (case st of None \<Rightarrow> 100 | Some s \<Rightarrow> get_or (max_field_length s) 100)"

definition get_exclude_test_data :: "settings option \<Rightarrow> bool" where
  "get_exclude_test_data st = (case st of None \<Rightarrow> True | Some s \<Rightarrow> get_or (exclude_test_data s) True)"

definition get_test_patterns :: "settings option \<Rightarrow> string list" where
  "get_test_patterns st = (case st of None \<Rightarrow> [] | Some s \<Rightarrow> get_or (test_patterns s) [])"

text \<open>
  Lines 158 to 213: the body of the inner loop, for one column, its value and one
  rule. Each \<^verbatim>\<open>continue\<close> returns the result as it was. The patterns are tried only on
  a value that is not \<^verbatim>\<open>None\<close> and was not rejected; an exception of the pattern loop
  leaves the body.
\<close>

definition check_rule ::
  "matcher \<Rightarrow> settings option \<Rightarrow> string \<Rightarrow> pyval \<Rightarrow> string \<times> rule_config \<Rightarrow> sens_info \<Rightarrow>
     py_error + sens_info"
where
  "check_rule rm st column v rule info =
     (let rule_name = fst rule;
          rule_cfg = snd rule
      in if rule_name \<notin> set (get_enabled_rules st) then Inr info
         else
           let keywords = get_or (field_keywords rule_cfg) [];
               patterns = get_or (regex_patterns rule_cfg) [];
               is_field_match = field_name_match (get_case_sensitive st) keywords column
           in if v \<noteq> PNone \<and>
                 is_test_data (get_exclude_test_data st) (get_test_patterns st)
                   (py_strip (py_str v))
              then Inr info
              else if v \<noteq> PNone \<and> int (length (py_strip (py_str v))) > get_max_field_length st
              then Inr info
              else
                (case (if v = PNone then Inr False
                       else value_pattern_match rm patterns (py_strip (py_str v))) of
                   Inl e \<Rightarrow> Inl e
                 | Inr is_value_match \<Rightarrow>
                     if is_field_match \<or> is_value_match
                     then Inr (store_match rule_name column
                            (column_match (display_value v) is_field_match is_value_match) info)
                     else Inr info))"

text \<open>A \<^verbatim>\<open>for\<close> loop over a list whose body may raise: the first exception ends it.\<close>

fun for_each :: "('a \<Rightarrow> 's \<Rightarrow> py_error + 's) \<Rightarrow> 'a list \<Rightarrow> 's \<Rightarrow> py_error + 's" where
  "for_each body [] s = Inr s"
| "for_each body (x # xs) s =
     (case body x s of Inl e \<Rightarrow> Inl e | Inr s' \<Rightarrow> for_each body xs s')"

text \<open>
  \<^verbatim>\<open>identify_sensitive_info\<close>. Past the guard of line 151 the record is as long as the
  column list, so \<^verbatim>\<open>enumerate(columns)\<close> with \<^verbatim>\<open>record[i]\<close> visits the pairs of
  \<open>zip columns record\<close>, in order. The messages it logs are not part of the result.
\<close>

definition identify_sensitive_info ::
  "rule_file \<Rightarrow> matcher \<Rightarrow> string list \<Rightarrow> pyval list \<Rightarrow> py_error + sens_info"
where
  "identify_sensitive_info env rm columns record =
     (let rules_cfg = fst (load_sensitive_rules env);
          rules = get_or (sensitive_rules rules_cfg) [];
          st = settings rules_cfg
      in if record = [] \<or> length record \<noteq> length columns then Inr []
         else for_each (\<lambda>(column, v). for_each (check_rule rm st column v) rules)
                (zip columns record) [])"

text \<open>The lookup \<^verbatim>\<open>sensitive_info[rule_name][column]\<close>, \<open>None\<close> where a key is absent.\<close>

definition lookup_match :: "sens_info \<Rightarrow> string \<Rightarrow> string \<Rightarrow> field_info option" where
  "lookup_match info rule_name column = map_of (fields_of info rule_name) column"

section \<open>The confirmation policy\<close>

text \<open>The two results, U+662F (yes) and U+5426 (no).\<close>

definition confirmed_yes :: string where
  "confirmed_yes = [CHR 0xE6, CHR 0x98, CHR 0xAF]"

definition confirmed_no :: string where
  "confirmed_no = [CHR 0xE5, CHR 0x90, CHR 0xA6]"

text \<open>
  Lines 244 to 259 for one entry of \<^verbatim>\<open>detected_fields\<close>: \<open>Inr True\<close> when the function
  returns the string U+662F there, \<open>Inr False\<close> when the loop goes on.
\<close>

definition field_confirms :: "matcher \<Rightarrow> string list \<Rightarrow> field_info \<Rightarrow> py_error + bool" where
  "field_confirms rm patterns fi =
     (case fi of
        FNotDict _ \<Rightarrow> Inr False
      | FDict d \<Rightarrow>
          (case map_of d ''value'' of
             None \<Rightarrow> Inr False
           | Some PNone \<Rightarrow> Inr False
           | Some v \<Rightarrow> value_pattern_match rm patterns (py_strip (py_str v))))"

text \<open>Lines 243 to 259: the loop over the entries of one rule name.\<close>

fun confirm_fields ::
  "matcher \<Rightarrow> string list \<Rightarrow> (string \<times> field_info) list \<Rightarrow> py_error + bool"
where
  "confirm_fields rm patterns [] = Inr False"
| "confirm_fields rm patterns ((field_name, fi) # rest) =
     (case field_confirms rm patterns fi of
        Inl e \<Rightarrow> Inl e
      | Inr True \<Rightarrow> Inr True
      | Inr False \<Rightarrow> confirm_fields rm patterns rest)"

text \<open>
  Lines 235 to 259: the loop over the rule names. \<open>Inr True\<close> is the early return,
  \<open>Inr False\<close> the end of the loop; \<^verbatim>\<open>detected_fields.items()\<close> raises
  \<^verbatim>\<open>AttributeError\<close> on a value that is not a dictionary.
\<close>

fun confirm_loop ::
  "matcher \<Rightarrow> (string \<times> rule_config) list \<Rightarrow> sens_info \<Rightarrow> py_error + bool"
where
  "confirm_loop rm rules [] = Inr False"
| "confirm_loop rm rules ((rule_name, detected_fields) # rest) =
     (case map_of rules rule_name of
        None \<Rightarrow> confirm_loop rm rules rest
      | Some rule_cfg \<Rightarrow>
          (case detected_fields of
             DNotDict _ \<Rightarrow> Inl AttributeError
           | DDict dfields \<Rightarrow>
               (case confirm_fields rm (get_or (regex_patterns rule_cfg) []) dfields of
                  Inl e \<Rightarrow> Inl e
                | Inr True \<Rightarrow> Inr True
                | Inr False \<Rightarrow> confirm_loop rm rules rest)))"

definition confirm_sensitive_data :: "rule_file \<Rightarrow> matcher \<Rightarrow> sens_info \<Rightarrow> py_error + string" where
  "confirm_sensitive_data env rm info =
     (if info = [] then Inr confirmed_no
      else
        let rules_cfg = fst (load_sensitive_rules env);
            rules = get_or (sensitive_rules rules_cfg) []
        in (case confirm_loop rm rules info of
              Inl e \<Rightarrow> Inl e
            | Inr True \<Rightarrow> Inr confirmed_yes
            | Inr False \<Rightarrow> Inr confirmed_no))"

section \<open>The display form of a sampled row\<close>

text \<open>
  Lines 461 to 472 of \<^verbatim>\<open>get_table_info\<close>: \<^verbatim>\<open>None\<close> and the numeric types are kept, any
  other value is turned into a string.
\<close>

definition display_form :: "pyval \<Rightarrow> pyval" where
  "display_form v =
     (case v of
        PNone \<Rightarrow> PNone
      | PInt i \<Rightarrow> PInt i
      | PFloat f \<Rightarrow> PFloat f
      | PBool b \<Rightarrow> PBool b
      | _ \<Rightarrow> (let str_value = py_str v
              in PStr (if length str_value > 100 then take 100 str_value @ ''...''
                       else str_value)))"

text \<open>Lines 458 to 472: the dictionary from column to display form.\<close>

definition column_value_dict :: "string list \<Rightarrow> pyval list \<Rightarrow> (string \<times> pyval) list" where
  "column_value_dict columns record =
     fold (\<lambda>i d. if i < length record
                  then AList.update (columns ! i) (display_form (record ! i)) d else d)
       [0..<length columns] []"

section \<open>The datasource configuration\<close>

record datasource =
  datasource_name :: string
  ip :: string
  port :: int
  username :: string
  password :: string

definition is_digit :: "char \<Rightarrow> bool" where
  "is_digit c = (48 \<le> (of_char c :: nat) \<and> (of_char c :: nat) \<le> 57)"

definition digit_val :: "char \<Rightarrow> nat" where
  "digit_val c = of_char c - 48"

text \<open>
  The digits of \<^verbatim>\<open>int(s)\<close> after the first one: digits, each optionally preceded by
  one underscore.
\<close>

fun int_digits :: "nat \<Rightarrow> string \<Rightarrow> nat option" where
  "int_digits acc [] = Some acc"
| "int_digits acc [c] = (if is_digit c then Some (acc * 10 + digit_val c) else None)"
| "int_digits acc (c # d # cs) =
     (if is_digit c then int_digits (acc * 10 + digit_val c) (d # cs)
      else if c = CHR ''_'' \<and> is_digit d then int_digits (acc * 10 + digit_val d) cs
      else None)"

text \<open>
  \<^verbatim>\<open>int(s)\<close> on a string: surrounding whitespace, an optional sign, decimal digits.
  \<open>None\<close> is \<^verbatim>\<open>ValueError\<close>.
\<close>

definition py_int :: "string \<Rightarrow> int option" where
  "py_int s =
     (let t = py_strip s;
          neg = (t \<noteq> [] \<and> hd t = CHR ''-'');
          body = (if t \<noteq> [] \<and> (hd t = CHR ''-'' \<or> hd t = CHR ''+'') then tl t else t)
      in case body of
           [] \<Rightarrow> None
         | c # cs \<Rightarrow>
             if is_digit c
             then map_option (\<lambda>n. if neg then - int n else int n) (int_digits (digit_val c) cs)
             else None)"

text \<open>The two messages of \<^verbatim>\<open>parse_datasource_config\<close> (U+89E3 U+6790 U+6570 U+636E U+6E90 U+914D U+7F6E; U+8DF3 U+8FC7 U+65E0 U+6548 U+7684 U+914D U+7F6E U+884C).\<close>

definition msg_parsed :: "datasource \<Rightarrow> string" where
  "msg_parsed ds =
     [CHR 0xE8, CHR 0xA7, CHR 0xA3, CHR 0xE6, CHR 0x9E, CHR 0x90, CHR 0xE6, CHR 0x95,
     CHR 0xB0, CHR 0xE6, CHR 0x8D, CHR 0xAE, CHR 0xE6, CHR 0xBA, CHR 0x90, CHR 0xE9,
     CHR 0x85, CHR 0x8D, CHR 0xE7, CHR 0xBD, CHR 0xAE] @ '': '' @
     datasource_name ds @ '' - '' @ ip ds @ '':'' @ str_int (port ds)"

definition msg_skipped :: "string \<Rightarrow> string" where
  "msg_skipped line =
     [CHR 0xE8, CHR 0xB7, CHR 0xB3, CHR 0xE8, CHR 0xBF, CHR 0x87, CHR 0xE6, CHR 0x97,
     CHR 0xA0, CHR 0xE6, CHR 0x95, CHR 0x88, CHR 0xE7, CHR 0x9A, CHR 0x84, CHR 0xE9,
     CHR 0x85, CHR 0x8D, CHR 0xE7, CHR 0xBD, CHR 0xAE, CHR 0xE8, CHR 0xA1,
     CHR 0x8C] @ '': '' @ line"

text \<open>
  Lines 277 to 294: the loop over the lines, with the list built so far and the log.
  \<^verbatim>\<open>int(parts[2])\<close> is not inside any \<^verbatim>\<open>try\<close>: its \<^verbatim>\<open>ValueError\<close> leaves the function.
\<close>

fun parse_lines ::
  "string list \<Rightarrow> datasource list \<Rightarrow> log_entry list \<Rightarrow> log_entry list \<times> (py_error + datasource list)"
where
  "parse_lines [] datasources lg = (lg, Inr datasources)"
| "parse_lines (l # ls) datasources lg =
     (let line = py_strip l
      in if line = [] \<or> starts_with ''#'' line then parse_lines ls datasources lg
         else
           let parts = map py_strip (py_split CHR '','' line)
           in if length parts \<ge> 5
              then (case py_int (parts ! 2) of
                      None \<Rightarrow> (lg, Inl ValueError)
                    | Some p \<Rightarrow>
                        let ds = \<lparr> datasource_name = parts ! 0, ip = parts ! 1, port = p,
                                   username = parts ! 3, password = parts ! 4 \<rparr>
                        in parse_lines ls (datasources @ [ds]) (lg @ [(INFO, msg_parsed ds)]))
              else parse_lines ls datasources (lg @ [(WARNING, msg_skipped line)]))"

definition parse_datasource_config :: "string \<Rightarrow> log_entry list \<times> (py_error + datasource list)" where
  "parse_datasource_config config_text =
     parse_lines (py_split (CHR 0x0A) (py_strip config_text)) [] []"

section \<open>The aggregator\<close>

text \<open>
  A row of the audit sheet. The keys of the source's dictionary are, in order,
  U+98CE U+9669 U+7C7B U+578B (risk type), U+98CE U+9669 U+7B49 U+7EA7 (risk level),
  U+68C0 U+67E5 U+9879 (checked item), U+8868 U+540D (table name), U+5B57 U+6BB5 U+540D
  (field name), U+654F U+611F U+7C7B U+578B (sensitive type), U+98CE U+9669 U+63CF U+8FF0
  (description), U+68C0 U+6D4B U+503C (detected value), U+8BB0 U+5F55 U+603B U+6570
  (record count) and U+5EFA U+8BAE (advice).
\<close>

record finding =
  risk_type :: string
  risk_level :: string
  check_item :: string
  table_name :: string
  field_name :: string
  sensitive_type :: string
  risk_description :: string
  detected_value :: string
  record_count :: pyval
  advice :: string

text \<open>
  A row of \<^verbatim>\<open>get_table_info\<close>: the table name, the two JSON texts, the confirmation
  and the row count. \<^verbatim>\<open>get_table_info\<close> sets all five keys in every row it builds.
\<close>

record table_row =
  row_table :: string
  row_columns_json :: string
  row_sensitive_json :: string
  row_confirmed :: string
  row_total :: int

text \<open>
  \<^verbatim>\<open>json.loads\<close> on the stored classification is a parameter: \<open>None\<close> where it raises,
  otherwise the dictionary from rule name to column to the \<^verbatim>\<open>value\<close> entry of the match
  (a string, or \<open>None\<close> for \<^verbatim>\<open>null\<close>), which is all the aggregator reads.
\<close>

type_synonym parsed_info = "(string \<times> (string \<times> string option) list) list"

type_synonym json_loads = "string \<Rightarrow> parsed_info option"

text \<open>A user row of \<^verbatim>\<open>get_database_users\<close>: a dictionary from the column alias to the value.\<close>

type_synonym user_row = "(string \<times> pyval) list"

text \<open>The risk type of a sensitive-data finding: U+654F U+611F U+4FE1 U+606F.\<close>

definition lit_sensitive :: string where
  "lit_sensitive =
     [CHR 0xE6, CHR 0x95, CHR 0x8F, CHR 0xE6, CHR 0x84, CHR 0x9F, CHR 0xE4, CHR 0xBF,
     CHR 0xA1, CHR 0xE6, CHR 0x81, CHR 0xAF]"

text \<open>The risk type of a privilege finding: U+6743 U+9650 U+98CE U+9669.\<close>

definition lit_priv_risk :: string where
  "lit_priv_risk =
     [CHR 0xE6, CHR 0x9D, CHR 0x83, CHR 0xE9, CHR 0x99, CHR 0x90, CHR 0xE9, CHR 0xA3,
     CHR 0x8E, CHR 0xE9, CHR 0x99, CHR 0xA9]"

text \<open>The level high: U+9AD8.\<close>

definition lit_high :: string where
  "lit_high =
     [CHR 0xE9, CHR 0xAB, CHR 0x98]"

text \<open>The level medium: U+4E2D.\<close>

definition lit_medium :: string where
  "lit_medium =
     [CHR 0xE4, CHR 0xB8, CHR 0xAD]"

text \<open>The level low: U+4F4E.\<close>

definition lit_low :: string where
  "lit_low =
     [CHR 0xE4, CHR 0xBD, CHR 0x8E]"

text \<open>The checked item of a privilege finding: U+7528 U+6237 U+6743 U+9650.\<close>

definition lit_user_privs :: string where
  "lit_user_privs =
     [CHR 0xE7, CHR 0x94, CHR 0xA8, CHR 0xE6, CHR 0x88, CHR 0xB7, CHR 0xE6, CHR 0x9D,
     CHR 0x83, CHR 0xE9, CHR 0x99, CHR 0x90]"

text \<open>The sensitive type of a high-risk privilege finding: U+6570 U+636E U+5E93 U+6743 U+9650.\<close>

definition lit_db_priv :: string where
  "lit_db_priv =
     [CHR 0xE6, CHR 0x95, CHR 0xB0, CHR 0xE6, CHR 0x8D, CHR 0xAE, CHR 0xE5, CHR 0xBA,
     CHR 0x93, CHR 0xE6, CHR 0x9D, CHR 0x83, CHR 0xE9, CHR 0x99, CHR 0x90]"

text \<open>The sensitive type of a wildcard-host finding: U+4E3B U+673A U+6743 U+9650.\<close>

definition lit_host_priv :: string where
  "lit_host_priv =
     [CHR 0xE4, CHR 0xB8, CHR 0xBB, CHR 0xE6, CHR 0x9C, CHR 0xBA, CHR 0xE6, CHR 0x9D,
     CHR 0x83, CHR 0xE9, CHR 0x99, CHR 0x90]"

text \<open>The detected value of a wildcard-host finding: U+901A U+914D U+7B26 U+4E3B U+673A U+6743 U+9650.\<close>

definition lit_wildcard :: string where
  "lit_wildcard =
     [CHR 0xE9, CHR 0x80, CHR 0x9A, CHR 0xE9, CHR 0x85, CHR 0x8D, CHR 0xE7, CHR 0xAC,
     CHR 0xA6, CHR 0xE4, CHR 0xB8, CHR 0xBB, CHR 0xE6, CHR 0x9C, CHR 0xBA, CHR 0xE6,
     CHR 0x9D, CHR 0x83, CHR 0xE9, CHR 0x99, CHR 0x90]"

text \<open>The advice of a high-risk privilege finding: U+6839 U+636E U+6700 U+5C0F U+6743 U+9650 U+539F U+5219 U+FF0C U+79FB U+9664 U+4E0D U+5FC5 U+8981 U+7684 U+9AD8 U+5371 U+6743 U+9650.\<close>

definition advice_least_priv :: string where
  "advice_least_priv =
     [CHR 0xE6, CHR 0xA0, CHR 0xB9, CHR 0xE6, CHR 0x8D, CHR 0xAE, CHR 0xE6, CHR 0x9C,
     CHR 0x80, CHR 0xE5, CHR 0xB0, CHR 0x8F, CHR 0xE6, CHR 0x9D, CHR 0x83, CHR 0xE9,
     CHR 0x99, CHR 0x90, CHR 0xE5, CHR 0x8E, CHR 0x9F, CHR 0xE5, CHR 0x88, CHR 0x99,
     CHR 0xEF, CHR 0xBC, CHR 0x8C, CHR 0xE7, CHR 0xA7, CHR 0xBB, CHR 0xE9, CHR 0x99,
     CHR 0xA4, CHR 0xE4, CHR 0xB8, CHR 0x8D, CHR 0xE5, CHR 0xBF, CHR 0x85, CHR 0xE8,
     CHR 0xA6, CHR 0x81, CHR 0xE7, CHR 0x9A, CHR 0x84, CHR 0xE9, CHR 0xAB, CHR 0x98,
     CHR 0xE5, CHR 0x8D, CHR 0xB1, CHR 0xE6, CHR 0x9D, CHR 0x83, CHR 0xE9, CHR 0x99,
     CHR 0x90]"

text \<open>The advice of a wildcard-host finding: U+9650 U+5236 U+7528 U+6237 U+53EA U+80FD U+4ECE U+7279 U+5B9A U+4E3B U+673A U+8FDE U+63A5 U+FF0C U+907F U+514D U+4F7F U+7528 U+901A U+914D U+7B26.\<close>

definition advice_host :: string where
  "advice_host =
     [CHR 0xE9, CHR 0x99, CHR 0x90, CHR 0xE5, CHR 0x88, CHR 0xB6, CHR 0xE7, CHR 0x94,
     CHR 0xA8, CHR 0xE6, CHR 0x88, CHR 0xB7, CHR 0xE5, CHR 0x8F, CHR 0xAA, CHR 0xE8,
     CHR 0x83, CHR 0xBD, CHR 0xE4, CHR 0xBB, CHR 0x8E, CHR 0xE7, CHR 0x89, CHR 0xB9,
     CHR 0xE5, CHR 0xAE, CHR 0x9A, CHR 0xE4, CHR 0xB8, CHR 0xBB, CHR 0xE6, CHR 0x9C,
     CHR 0xBA, CHR 0xE8, CHR 0xBF, CHR 0x9E, CHR 0xE6, CHR 0x8E, CHR 0xA5, CHR 0xEF,
     CHR 0xBC, CHR 0x8C, CHR 0xE9, CHR 0x81, CHR 0xBF, CHR 0xE5, CHR 0x85, CHR 0x8D,
     CHR 0xE4, CHR 0xBD, CHR 0xBF, CHR 0xE7, CHR 0x94, CHR 0xA8, CHR 0xE9, CHR 0x80,
     CHR 0x9A, CHR 0xE9, CHR 0x85, CHR 0x8D, CHR 0xE7, CHR 0xAC, CHR 0xA6] @ ''(%)''"

text \<open>The separator of the summaries: U+3001.\<close>

definition lit_sep :: string where
  "lit_sep =
     [CHR 0xE3, CHR 0x80, CHR 0x81]"

text \<open>The key of the user name: U+7528 U+6237 U+540D.\<close>

definition key_user :: string where
  "key_user =
     [CHR 0xE7, CHR 0x94, CHR 0xA8, CHR 0xE6, CHR 0x88, CHR 0xB7, CHR 0xE5, CHR 0x90,
     CHR 0x8D]"

text \<open>The key of the host: U+4E3B U+673A.\<close>

definition key_host :: string where
  "key_host =
     [CHR 0xE4, CHR 0xB8, CHR 0xBB, CHR 0xE6, CHR 0x9C, CHR 0xBA]"

text \<open>The super privilege: U+8D85 U+7EA7 U+6743 U+9650.\<close>

definition priv_super :: string where
  "priv_super =
     [CHR 0xE8, CHR 0xB6, CHR 0x85, CHR 0xE7, CHR 0xBA, CHR 0xA7, CHR 0xE6, CHR 0x9D,
     CHR 0x83, CHR 0xE9, CHR 0x99, CHR 0x90]"

text \<open>The file privilege: U+6587 U+4EF6 U+6743 U+9650.\<close>

definition priv_file :: string where
  "priv_file =
     [CHR 0xE6, CHR 0x96, CHR 0x87, CHR 0xE4, CHR 0xBB, CHR 0xB6, CHR 0xE6, CHR 0x9D,
     CHR 0x83, CHR 0xE9, CHR 0x99, CHR 0x90]"

text \<open>The shutdown privilege: U+5173 U+95ED U+6743 U+9650.\<close>

definition priv_shutdown :: string where
  "priv_shutdown =
     [CHR 0xE5, CHR 0x85, CHR 0xB3, CHR 0xE9, CHR 0x97, CHR 0xAD, CHR 0xE6, CHR 0x9D,
     CHR 0x83, CHR 0xE9, CHR 0x99, CHR 0x90]"

text \<open>The reload privilege: U+91CD U+8F7D U+6743 U+9650.\<close>

definition priv_reload :: string where
  "priv_reload =
     [CHR 0xE9, CHR 0x87, CHR 0x8D, CHR 0xE8, CHR 0xBD, CHR 0xBD, CHR 0xE6, CHR 0x9D,
     CHR 0x83, CHR 0xE9, CHR 0x99, CHR 0x90]"

text \<open>The process privilege: U+8FDB U+7A0B U+6743 U+9650.\<close>

definition priv_process :: string where
  "priv_process =
     [CHR 0xE8, CHR 0xBF, CHR 0x9B, CHR 0xE7, CHR 0xA8, CHR 0x8B, CHR 0xE6, CHR 0x9D,
     CHR 0x83, CHR 0xE9, CHR 0x99, CHR 0x90]"

text \<open>The grant privilege: U+6388 U+6743 U+6743 U+9650.\<close>

definition priv_grant :: string where
  "priv_grant =
     [CHR 0xE6, CHR 0x8E, CHR 0x88, CHR 0xE6, CHR 0x9D, CHR 0x83, CHR 0xE6, CHR 0x9D,
     CHR 0x83, CHR 0xE9, CHR 0x99, CHR 0x90]"

text \<open>The replication-slave privilege: U+590D U+5236 U+4ECE U+6743 U+9650.\<close>

definition priv_repl_slave :: string where
  "priv_repl_slave =
     [CHR 0xE5, CHR 0xA4, CHR 0x8D, CHR 0xE5, CHR 0x88, CHR 0xB6, CHR 0xE4, CHR 0xBB,
     CHR 0x8E, CHR 0xE6, CHR 0x9D, CHR 0x83, CHR 0xE9, CHR 0x99, CHR 0x90]"

text \<open>The replication-client privilege: U+590D U+5236 U+5BA2 U+6237 U+7AEF U+6743 U+9650.\<close>

definition priv_repl_client :: string where
  "priv_repl_client =
     [CHR 0xE5, CHR 0xA4, CHR 0x8D, CHR 0xE5, CHR 0x88, CHR 0xB6, CHR 0xE5, CHR 0xAE,
     CHR 0xA2, CHR 0xE6, CHR 0x88, CHR 0xB7, CHR 0xE7, CHR 0xAB, CHR 0xAF, CHR 0xE6,
     CHR 0x9D, CHR 0x83, CHR 0xE9, CHR 0x99, CHR 0x90]"

text \<open>The select privilege: U+67E5 U+8BE2 U+6743 U+9650.\<close>

definition priv_select :: string where
  "priv_select =
     [CHR 0xE6, CHR 0x9F, CHR 0xA5, CHR 0xE8, CHR 0xAF, CHR 0xA2, CHR 0xE6, CHR 0x9D,
     CHR 0x83, CHR 0xE9, CHR 0x99, CHR 0x90]"

text \<open>The insert privilege: U+63D2 U+5165 U+6743 U+9650.\<close>

definition priv_insert :: string where
  "priv_insert =
     [CHR 0xE6, CHR 0x8F, CHR 0x92, CHR 0xE5, CHR 0x85, CHR 0xA5, CHR 0xE6, CHR 0x9D,
     CHR 0x83, CHR 0xE9, CHR 0x99, CHR 0x90]"

text \<open>The update privilege: U+66F4 U+65B0 U+6743 U+9650.\<close>

definition priv_update :: string where
  "priv_update =
     [CHR 0xE6, CHR 0x9B, CHR 0xB4, CHR 0xE6, CHR 0x96, CHR 0xB0, CHR 0xE6, CHR 0x9D,
     CHR 0x83, CHR 0xE9, CHR 0x99, CHR 0x90]"

text \<open>The delete privilege: U+5220 U+9664 U+6743 U+9650.\<close>

definition priv_delete :: string where
  "priv_delete =
     [CHR 0xE5, CHR 0x88, CHR 0xA0, CHR 0xE9, CHR 0x99, CHR 0xA4, CHR 0xE6, CHR 0x9D,
     CHR 0x83, CHR 0xE9, CHR 0x99, CHR 0x90]"

definition high_risk_permissions :: "string list" where
  "high_risk_permissions =
     [priv_super, priv_file, priv_shutdown, priv_reload,
      priv_process, priv_grant, priv_repl_slave, priv_repl_client]"

definition data_permissions :: "string list" where
  "data_permissions = [priv_select, priv_insert, priv_update, priv_delete]"

text \<open>\<^verbatim>\<open>user.get(perm) == yes\<close>, with the string U+662F.\<close>

definition holds :: "user_row \<Rightarrow> string \<Rightarrow> bool" where
  "holds user perm = (map_of user perm = Some (PStr confirmed_yes))"

text \<open>\<^verbatim>\<open>user.get(key, '')\<close>.\<close>

definition user_get :: "user_row \<Rightarrow> string \<Rightarrow> pyval" where
  "user_get user k = (case map_of user k of None \<Rightarrow> PStr [] | Some v \<Rightarrow> v)"

text \<open>Lines 723 to 726.\<close>

definition user_high_risks :: "user_row \<Rightarrow> string list" where
  "user_high_risks user = filter (holds user) high_risk_permissions"

text \<open>Lines 729 to 740: the finding for the high-risk privileges held.\<close>

definition high_risk_finding :: "user_row \<Rightarrow> finding" where
  "high_risk_finding user =
     \<lparr> risk_type = lit_priv_risk,
       risk_level = (if priv_super \<in> set (user_high_risks user) then lit_high else lit_medium),
       check_item = lit_user_privs,
       table_name = ''-'',
       field_name = ''-'',
       sensitive_type = lit_db_priv,
       risk_description =
         [CHR 0xE7, CHR 0x94, CHR 0xA8, CHR 0xE6, CHR 0x88, CHR 0xB7] @ '' '' @
         py_str (user_get user key_user) @ ''@'' @ py_str (user_get user key_host) @
         '' '' @ [CHR 0xE6, CHR 0x8B, CHR 0xA5, CHR 0xE6, CHR 0x9C, CHR 0x89, CHR 0xE9,
         CHR 0xAB, CHR 0x98, CHR 0xE5, CHR 0x8D, CHR 0xB1, CHR 0xE6, CHR 0x9D, CHR 0x83,
         CHR 0xE9, CHR 0x99, CHR 0x90] @ '': '' @
         py_join '', '' (user_high_risks user),
       detected_value = str_nat (length (user_high_risks user)) @
         [CHR 0xE4, CHR 0xB8, CHR 0xAA, CHR 0xE9, CHR 0xAB, CHR 0x98, CHR 0xE5, CHR 0x8D,
         CHR 0xB1, CHR 0xE6, CHR 0x9D, CHR 0x83, CHR 0xE9, CHR 0x99, CHR 0x90],
       record_count = PStr ''-'',
       advice = advice_least_priv \<rparr>"

text \<open>Lines 743 to 755: the wildcard-host test and its finding.\<close>

definition wildcard_host :: "user_row \<Rightarrow> bool" where
  "wildcard_host user =
     (user_get user key_host = PStr ''%'' \<and> list_ex (holds user) data_permissions)"

definition wildcard_finding :: "user_row \<Rightarrow> finding" where
  "wildcard_finding user =
     \<lparr> risk_type = lit_priv_risk,
       risk_level = lit_medium,
       check_item = lit_user_privs,
       table_name = ''-'',
       field_name = ''-'',
       sensitive_type = lit_host_priv,
       risk_description =
         [CHR 0xE7, CHR 0x94, CHR 0xA8, CHR 0xE6, CHR 0x88, CHR 0xB7] @ '' '' @
         py_str (user_get user key_user) @
         '' '' @ [CHR 0xE5, CHR 0x85, CHR 0x81, CHR 0xE8, CHR 0xAE, CHR 0xB8, CHR 0xE4,
         CHR 0xBB, CHR 0x8E, CHR 0xE4, CHR 0xBB, CHR 0xBB, CHR 0xE6, CHR 0x84, CHR 0x8F,
         CHR 0xE4, CHR 0xB8, CHR 0xBB, CHR 0xE6, CHR 0x9C, CHR 0xBA] @ ''(%)'' @ [CHR 0xE8,
         CHR 0xBF, CHR 0x9E, CHR 0xE6, CHR 0x8E, CHR 0xA5, CHR 0xE5, CHR 0xB9, CHR 0xB6,
         CHR 0xE5, CHR 0x85, CHR 0xB7, CHR 0xE6, CHR 0x9C, CHR 0x89, CHR 0xE6, CHR 0x95,
         CHR 0xB0, CHR 0xE6, CHR 0x8D, CHR 0xAE, CHR 0xE6, CHR 0x93, CHR 0x8D, CHR 0xE4,
         CHR 0xBD, CHR 0x9C, CHR 0xE6, CHR 0x9D, CHR 0x83, CHR 0xE9, CHR 0x99, CHR 0x90],
       detected_value = lit_wildcard,
       record_count = PStr ''-'',
       advice = advice_host \<rparr>"

text \<open>Lines 718 to 755 for one user: the findings appended, in order.\<close>

definition user_findings :: "user_row \<Rightarrow> finding list" where
  "user_findings user =
     (if user_high_risks user \<noteq> [] then [high_risk_finding user] else []) @
     (if wildcard_host user then [wildcard_finding user] else [])"

text \<open>Lines 686 to 691: the field labels and the sample values of one table.\<close>

definition sensitive_fields :: "parsed_info \<Rightarrow> string list" where
  "sensitive_fields info =
     concat (map (\<lambda>(sensitive_type, flds).
       map (\<lambda>(fname, details). fname @ ''('' @ sensitive_type @ '')'') flds) info)"

definition sample_values :: "parsed_info \<Rightarrow> string list" where
  "sample_values info =
     concat (map (\<lambda>(sensitive_type, flds).
       concat (map (\<lambda>(fname, details).
         (case details of
            None \<Rightarrow> []
          | Some v \<Rightarrow> if v = [] then []
                      else [if length v > 10 then take 10 v @ ''...'' else v])) flds)) info)"

text \<open>Lines 694 to 710: the finding of one confirmed table.\<close>

definition table_finding :: "string \<Rightarrow> table_row \<Rightarrow> parsed_info \<Rightarrow> finding" where
  "table_finding database tbl info =
     (let types_str = py_join lit_sep (map fst info);
          flds = sensitive_fields info;
          fields_str = py_join lit_sep (take 3 flds) @
            (if length flds > 3
             then [CHR 0xE7, CHR 0xAD, CHR 0x89] @ str_nat (length flds) @
                  [CHR 0xE4, CHR 0xB8, CHR 0xAA, CHR 0xE5, CHR 0xAD, CHR 0x97, CHR 0xE6,
                  CHR 0xAE, CHR 0xB5]
             else []);
          samples = sample_values info
      in \<lparr> risk_type = lit_sensitive,
           risk_level = lit_high,
           check_item = database,
           table_name = row_table tbl,
           field_name = fields_str,
           sensitive_type = types_str,
           risk_description =
             [CHR 0xE8, CHR 0xA1, CHR 0xA8] @ '' '' @ row_table tbl @
             '' '' @ [CHR 0xE5, CHR 0x8C, CHR 0x85, CHR 0xE5, CHR 0x90, CHR 0xAB, CHR 0xE6,
             CHR 0x95, CHR 0x8F, CHR 0xE6, CHR 0x84, CHR 0x9F, CHR 0xE4, CHR 0xBF, CHR 0xA1,
             CHR 0xE6, CHR 0x81, CHR 0xAF] @ '': '' @ types_str,
           detected_value = py_join lit_sep (take 2 samples) @
             (if length samples > 2 then ''...'' else []),
           record_count = PInt (row_total tbl),
           advice = [CHR 0xE5, CHR 0xAF, CHR 0xB9, CHR 0xE5, CHR 0x8C, CHR 0x85, CHR 0xE5, CHR 0x90,
             CHR 0xAB] @ types_str @
             [CHR 0xE7, CHR 0x9A, CHR 0x84, CHR 0xE5, CHR 0xAD, CHR 0x97, CHR 0xE6, CHR 0xAE,
             CHR 0xB5, CHR 0xE8, CHR 0xBF, CHR 0x9B, CHR 0xE8, CHR 0xA1, CHR 0x8C, CHR 0xE5,
             CHR 0x8A, CHR 0xA0, CHR 0xE5, CHR 0xAF, CHR 0x86, CHR 0xE6, CHR 0x88, CHR 0x96,
             CHR 0xE8, CHR 0x84, CHR 0xB1, CHR 0xE6, CHR 0x95, CHR 0x8F, CHR 0xE5, CHR 0xA4,
             CHR 0x84, CHR 0xE7, CHR 0x90, CHR 0x86] \<rparr>)"

text \<open>
  Lines 669 to 710 for one table: nothing unless the table is confirmed and its stored
  classification parses to a dictionary that is not empty.
\<close>

definition table_findings :: "json_loads \<Rightarrow> string \<Rightarrow> table_row \<Rightarrow> finding list" where
  "table_findings jl database tbl =
     (if row_confirmed tbl = confirmed_yes
      then (case jl (row_sensitive_json tbl) of
              None \<Rightarrow> []
            | Some info \<Rightarrow> if info = [] then [] else [table_finding database tbl info])
      else [])"

text \<open>Line 758: \<^verbatim>\<open>risk_priority.get(level, 99)\<close>.\<close>

definition risk_priority :: "string \<Rightarrow> nat" where
  "risk_priority lv =
     (if lv = lit_high then 1 else if lv = lit_medium then 2 else if lv = lit_low then 3 else 99)"

text \<open>Line 759: the key of the sort.\<close>

definition finding_key :: "finding \<Rightarrow> nat \<times> string" where
  "finding_key x = (risk_priority (risk_level x), risk_type x)"

text \<open>The list \<^verbatim>\<open>audit_results\<close> before line 759: the order in which findings are appended.\<close>

definition emitted_findings ::
  "json_loads \<Rightarrow> user_row list \<Rightarrow> (string \<times> table_row list) list \<Rightarrow> finding list"
where
  "emitted_findings jl users databases_info =
     concat (map (\<lambda>(database, table_info). concat (map (table_findings jl database) table_info))
       databases_info) @
     concat (map user_findings users)"

text \<open>
  \<^verbatim>\<open>_generate_audit_summary\<close>. \<^verbatim>\<open>list.sort(key=...)\<close> is the stable sort by the key, which
  is what \<open>sort_key\<close> computes.
\<close>

definition generate_audit_summary ::
  "json_loads \<Rightarrow> user_row list \<Rightarrow> (string \<times> table_row list) list \<Rightarrow> finding list"
where
  "generate_audit_summary jl users databases_info =
     sort_key finding_key (emitted_findings jl users databases_info)"

section \<open>Auxiliary definitions for the statements\<close>

text \<open>The rules and the settings in force for a rule file.\<close>

definition active_rules :: "rule_file \<Rightarrow> (string \<times> rule_config) list" where
  "active_rules env = get_or (sensitive_rules (fst (load_sensitive_rules env))) []"

definition active_settings :: "rule_file \<Rightarrow> settings option" where
  "active_settings env = settings (fst (load_sensitive_rules env))"

text \<open>
  A classification result: a dictionary whose values are dictionaries of column
  matches, the shape \<^verbatim>\<open>identify_sensitive_info\<close> builds.
\<close>

fun is_ddict :: "detected \<Rightarrow> bool" where
  "is_ddict (DDict d) = True"
| "is_ddict (DNotDict v) = False"

definition is_classification :: "sens_info \<Rightarrow> bool" where
  "is_classification info = list_all is_ddict (map snd info)"

text \<open>
  What \<^verbatim>\<open>re.match\<close> computes for the default pattern \<^verbatim>\<open>^1[3-9]\d{9}$\<close>: a one, a digit
  from three to nine and nine more digits, then the end of the string or one final
  newline.
\<close>

definition phone_match :: "string \<Rightarrow> re_result" where
  "phone_match s =
     (let t = (if length s = 12 \<and> last s = CHR 0x0A then butlast s else s)
      in if length t = 11 \<and> hd t = CHR ''1'' \<and> is_digit (t ! 1) \<and>
            51 \<le> (of_char (t ! 1) :: nat) \<and> list_all is_digit (drop 2 t)
         then Matched else NoMatch)"

text \<open>
  A matcher for the examples: it knows the default pattern and reports every other
  pattern as malformed.
\<close>

definition default_matcher :: matcher where
  "default_matcher pattern s = (if pattern = phone_pattern then phone_match s else ReError)"

text \<open>
  The engine raises nothing but \<^verbatim>\<open>re.error\<close> on the patterns of the rules, whatever the
  string.
\<close>

definition patterns_safe :: "matcher \<Rightarrow> (string \<times> rule_config) list \<Rightarrow> bool" where
  "patterns_safe rm rules =
     (\<forall>(rule_name, cfg) \<in> set rules. \<forall>pattern \<in> set (get_or (regex_patterns cfg) []).
        \<forall>s e. rm pattern s \<noteq> ReRaised e)"

text \<open>
  A pattern on which \<^verbatim>\<open>re.match\<close> raises \<^verbatim>\<open>OverflowError\<close>, the repetition count being
  too large; a matcher that does so, and a configuration whose phone rule tries that
  pattern before the default one.
\<close>

definition overflow_pattern :: string where
  "overflow_pattern = ''a{4294967296}''"

definition overflow_matcher :: matcher where
  "overflow_matcher pattern s =
     (if pattern = overflow_pattern then ReRaised OverflowError else default_matcher pattern s)"

definition overflow_rules :: rules_config where
  "overflow_rules =
     \<lparr> sensitive_rules = Some [(rule_phone,
         \<lparr> field_keywords = Some [''phone'', ''mobile'', ''telephone''],
           regex_patterns = Some [overflow_pattern, phone_pattern],
           description = Some desc_phone \<rparr>)],
       settings = settings get_default_rules \<rparr>"

text \<open>A column match whose shown value is \<^verbatim>\<open>None\<close> or a string of at most 53 characters.\<close>

definition bounded_match :: "field_info \<Rightarrow> bool" where
  "bounded_match m = (\<exists>dv fm vm. m = column_match dv fm vm \<and>
      (dv = PNone \<or> (\<exists>s. dv = PStr s \<and> length s \<le> 53)))"

text \<open>
  One entry re-validates: it is a dictionary whose value is not \<^verbatim>\<open>None\<close> and whose
  trimmed text matches one of the patterns.
\<close>

definition entry_revalidates :: "matcher \<Rightarrow> string list \<Rightarrow> field_info \<Rightarrow> bool" where
  "entry_revalidates rm ps fi \<longleftrightarrow>
     (\<exists>d v. fi = FDict d \<and> map_of d ''value'' = Some v \<and> v \<noteq> PNone \<and>
        (\<exists>p \<in> set ps. rm p (py_strip (py_str v)) = Matched))"

text \<open>
  Some stored value of the classification re-validates: under a rule name of the rule
  set, a column match holds a value other than \<^verbatim>\<open>None\<close> whose trimmed text matches one
  of the patterns of that rule.
\<close>

definition revalidates ::
  "matcher \<Rightarrow> (string \<times> rule_config) list \<Rightarrow> sens_info \<Rightarrow> bool" where
  "revalidates rm rules info \<longleftrightarrow>
     (\<exists>rule_name fs cfg column d v pattern.
        (rule_name, DDict fs) \<in> set info \<and> map_of rules rule_name = Some cfg \<and>
        (column, FDict d) \<in> set fs \<and> map_of d ''value'' = Some v \<and> v \<noteq> PNone \<and>
        pattern \<in> set (get_or (regex_patterns cfg) []) \<and>
        rm pattern (py_strip (py_str v)) = Matched)"


text \<open>Two user rows for the examples.\<close>

definition example_root :: user_row where
  "example_root = [(key_user, PStr ''root''), (key_host, PStr ''%''),
     (priv_select, PStr confirmed_yes), (priv_super, PStr confirmed_yes),
     (priv_file, PStr confirmed_yes)]"

definition example_app :: user_row where
  "example_app = [(key_user, PStr ''app_user''), (key_host, PStr ''%''),
     (priv_select, PStr confirmed_yes), (priv_insert, PStr confirmed_yes),
     (priv_reload, PStr confirmed_yes)]"

section \<open>The rule store falls back to the default\<close>

text \<open>
  Claim C8, as the code has it. \<^verbatim>\<open>load_sensitive_rules\<close> has no error result: with no
  rule file it returns the default configuration and logs one warning; when opening or
  parsing the file raises it returns the same default and logs one entry at level
  ERROR (not a warning); a file that parses is returned as it is, with nothing logged.
  The default holds the phone-number rule with the keywords phone, mobile and telephone
  and the single pattern \<^verbatim>\<open>^1[3-9]\d{9}$\<close>.
\<close>

theorem load_sensitive_rules_falls_back:
  "load_sensitive_rules Absent = (get_default_rules, [(WARNING, msg_rules_missing rules_file)]) \<and>
   load_sensitive_rules (Unloadable e) = (get_default_rules, [(ERROR, msg_rules_failed e)]) \<and>
   load_sensitive_rules (Loaded cfg) = (cfg, []) \<and>
   map_of (get_or (sensitive_rules get_default_rules) []) rule_phone =
     Some \<lparr> field_keywords = Some [''phone'', ''mobile'', ''telephone''],
            regex_patterns = Some [phone_pattern],
            description = Some desc_phone \<rparr>"
  by (simp add: load_sensitive_rules_def get_default_rules_def get_or_def)

text \<open>
  Claim C8 as stated fails: when the rule file cannot be parsed, no entry of the log is
  a warning.
\<close>

theorem load_failure_not_a_warning:
  "WARNING \<notin> set (map fst (snd (load_sensitive_rules (Unloadable ''Expecting value''))))"
  by (simp add: load_sensitive_rules_def)

section \<open>A port that is not a number\<close>

text \<open>
  Claim C4 does not hold of the code: a line with five fields whose third field is not
  a number makes \<^verbatim>\<open>int(parts[2])\<close> raise \<^verbatim>\<open>ValueError\<close>, and the exception leaves
  \<^verbatim>\<open>parse_datasource_config\<close> instead of the line being skipped.
\<close>

theorem parse_non_numeric_port_raises:
  "snd (parse_datasource_config ''db1,localhost,abc,root,secret'') = Inl ValueError"
  by (simp add: parse_datasource_config_def py_strip_def py_isspace_def py_int_def is_digit_def)

section \<open>Loops that may raise\<close>

lemma for_each_Cons_Inr:
  "for_each body (x # xs) s = Inr s'' \<Longrightarrow>
   \<exists>s'. body x s = Inr s' \<and> for_each body xs s' = Inr s''"
  by (cases "body x s") simp_all

lemma for_each_append_Inr:
  "for_each body (xs @ ys) s = Inr s'' \<Longrightarrow>
   \<exists>s'. for_each body xs s = Inr s' \<and> for_each body ys s' = Inr s''"
proof (induction xs arbitrary: s)
  case Nil
  then show ?case by simp
next
  case (Cons x xs)
  from Cons.prems obtain s1 where a: "body x s = Inr s1"
    and b: "for_each body (xs @ ys) s1 = Inr s''"
    using for_each_Cons_Inr [of body x "xs @ ys" s s''] by auto
  from Cons.IH [OF b] a show ?case by auto
qed

lemma for_each_invariant:
  assumes "for_each body xs s = Inr s'" and "P s"
    and "\<And>x t t'. x \<in> set xs \<Longrightarrow> P t \<Longrightarrow> body x t = Inr t' \<Longrightarrow> P t'"
  shows "P s'"
  using assms
proof (induction xs arbitrary: s)
  case Nil
  then show ?case by simp
next
  case (Cons x xs)
  obtain s1 where a: "body x s = Inr s1"
    and b: "for_each body xs s1 = Inr s'"
    using Cons.prems(1) by (cases "body x s") auto
  have p1: "P s1" using Cons.prems(3) [of x s s1] Cons.prems(2) a by simp
  show ?case
  proof (rule Cons.IH [OF b p1])
    fix y t t'
    assume "y \<in> set xs" "P t" "body y t = Inr t'"
    then show "P t'" using Cons.prems(3) [of y t t'] by simp
  qed
qed

lemma for_each_total:
  assumes "\<And>x t. x \<in> set xs \<Longrightarrow> \<exists>t'. body x t = Inr t'"
  shows "\<exists>s'. for_each body xs s = Inr s'"
  using assms
proof (induction xs arbitrary: s)
  case Nil
  then show ?case by simp
next
  case (Cons x xs)
  obtain s1 where a: "body x s = Inr s1" using Cons.prems [of x s] by auto
  have "\<exists>s'. for_each body xs s1 = Inr s'" using Cons.IH Cons.prems by simp
  then show ?case using a by simp
qed

section \<open>The pattern loop\<close>

lemma value_pattern_match_sound:
  "value_pattern_match rm ps s = Inr True \<Longrightarrow> \<exists>p \<in> set ps. rm p s = Matched"
  by (induction ps) (auto split: re_result.splits)

lemma value_pattern_match_total:
  "\<forall>p \<in> set ps. \<forall>s e. rm p s \<noteq> ReRaised e \<Longrightarrow>
   value_pattern_match rm ps s = Inr (\<exists>p \<in> set ps. rm p s = Matched)"
  by (induction ps) (auto split: re_result.splits)

lemma patterns_safeD:
  "patterns_safe rm rules \<Longrightarrow> (r, cfg) \<in> set rules \<Longrightarrow>
   \<forall>p \<in> set (get_or (regex_patterns cfg) []). \<forall>s e. rm p s \<noteq> ReRaised e"
  by (auto simp add: patterns_safe_def)

section \<open>What the classifier records for one column\<close>

lemma lookup_store_match:
  "lookup_match (store_match r c m info) r' c' =
     (if r' = r \<and> c' = c then Some m else lookup_match info r' c')"
  by (simp add: lookup_match_def store_match_def fields_of_def AList.update_conv')

lemma lookup_empty: "lookup_match [] r c = None"
  by (simp add: lookup_match_def fields_of_def)

lemma check_rule_other:
  "check_rule rm st column v rule info = Inr info' \<Longrightarrow> c' \<noteq> column \<Longrightarrow>
   lookup_match info' r c' = lookup_match info r c'"
  by (auto simp add: check_rule_def Let_def lookup_store_match split: if_splits sum.splits)

lemma rules_loop_other:
  assumes "for_each (check_rule rm st column v) rules info = Inr info'" and "c' \<noteq> column"
  shows "lookup_match info' r c' = lookup_match info r c'"
  using assms(1)
  by (rule for_each_invariant [where P = "\<lambda>t. lookup_match t r c' = lookup_match info r c'"])
     (simp_all add: check_rule_other [OF _ assms(2)])

lemma columns_loop_other:
  assumes "for_each (\<lambda>(column, v). for_each (check_rule rm st column v) rules) ps info = Inr info'"
    and "\<forall>p \<in> set ps. fst p \<noteq> c"
  shows "lookup_match info' r c = lookup_match info r c"
  using assms(1)
proof (rule for_each_invariant [where P = "\<lambda>t. lookup_match t r c = lookup_match info r c"])
  show "lookup_match info r c = lookup_match info r c" by simp
next
  fix x t t'
  assume x: "x \<in> set ps" and t: "lookup_match t r c = lookup_match info r c"
    and b: "(case x of (column, v) \<Rightarrow> for_each (check_rule rm st column v) rules) t = Inr t'"
  obtain column v where xv: "x = (column, v)" by (cases x)
  have "c \<noteq> column" using assms(2) x xv by auto
  then have "lookup_match t' r c = lookup_match t r c"
    using b xv rules_loop_other by auto
  then show "lookup_match t' r c = lookup_match info r c" using t by simp
qed

lemma check_rule_test_data:
  "v \<noteq> PNone \<Longrightarrow>
   is_test_data (get_exclude_test_data st) (get_test_patterns st) (py_strip (py_str v)) \<Longrightarrow>
   check_rule rm st column v rule info = Inr info"
  by (simp add: check_rule_def Let_def)

lemma rules_loop_test_data:
  "v \<noteq> PNone \<Longrightarrow>
   is_test_data (get_exclude_test_data st) (get_test_patterns st) (py_strip (py_str v)) \<Longrightarrow>
   for_each (check_rule rm st column v) rules info = Inr info"
  by (induction rules) (simp_all add: check_rule_test_data)



text \<open>
  \<^verbatim>\<open>identify_sensitive_info\<close> returns when the engine raises nothing but \<^verbatim>\<open>re.error\<close> on
  the patterns of the rules.
\<close>

lemma check_rule_total:
  "\<forall>p \<in> set (get_or (regex_patterns (snd rule)) []). \<forall>s e. rm p s \<noteq> ReRaised e \<Longrightarrow>
   \<exists>info'. check_rule rm st column v rule info = Inr info'"
  by (simp add: check_rule_def Let_def value_pattern_match_total)

lemma columns_loop_total:
  assumes "patterns_safe rm rules"
  shows "\<exists>info'. for_each (\<lambda>(column, v). for_each (check_rule rm st column v) rules) ps info
           = Inr info'"
proof (rule for_each_total)
  fix x :: "string \<times> pyval" and t
  obtain column v where xv: "x = (column, v)" by (cases x)
  have "\<exists>t'. for_each (check_rule rm st column v) rules t = Inr t'"
  proof (rule for_each_total)
    fix rule :: "string \<times> rule_config" and u
    assume "rule \<in> set rules"
    then have "\<forall>p \<in> set (get_or (regex_patterns (snd rule)) []). \<forall>s e. rm p s \<noteq> ReRaised e"
      using patterns_safeD [OF assms, of "fst rule" "snd rule"] by simp
    then show "\<exists>t'. check_rule rm st column v rule u = Inr t'"
      by (rule check_rule_total)
  qed
  then show "\<exists>t'. (case x of (column, v) \<Rightarrow> for_each (check_rule rm st column v) rules) t = Inr t'"
    by (simp add: xv)
qed

lemma identify_total:
  "patterns_safe rm (active_rules env) \<Longrightarrow>
   \<exists>info. identify_sensitive_info env rm columns record = Inr info"
  using columns_loop_total [of rm "active_rules env" "active_settings env" "zip columns record" "[]"]
  by (auto simp add: identify_sensitive_info_def Let_def active_rules_def active_settings_def)

lemma zip_split_at:
  assumes "i < length xs" "length ys = length xs"
  shows "zip xs ys = zip (take i xs) (take i ys) @ (xs ! i, ys ! i) # zip (drop (Suc i) xs) (drop (Suc i) ys)"
proof -
  have "zip xs ys ! i = (xs ! i, ys ! i)" using assms by simp
  moreover have "i < length (zip xs ys)" using assms by simp
  ultimately show ?thesis
    by (metis id_take_nth_drop take_zip drop_zip)
qed

lemma distinct_other_columns:
  assumes "distinct xs" "i < length xs"
  shows "\<forall>p \<in> set (zip (take i xs) ys). fst p \<noteq> xs ! i"
    and "\<forall>p \<in> set (zip (drop (Suc i) xs) zs). fst p \<noteq> xs ! i"
proof -
  have "xs = take i xs @ xs ! i # drop (Suc i) xs"
    using assms(2) by (rule id_take_nth_drop)
  then have "distinct (take i xs @ xs ! i # drop (Suc i) xs)"
    using assms(1) by simp
  then have a: "xs ! i \<notin> set (take i xs)" and b: "xs ! i \<notin> set (drop (Suc i) xs)"
    by auto
  show "\<forall>p \<in> set (zip (take i xs) ys). fst p \<noteq> xs ! i"
    using a by (auto dest: set_zip_leftD)
  show "\<forall>p \<in> set (zip (drop (Suc i) xs) zs). fst p \<noteq> xs ! i"
    using b by (auto dest: set_zip_leftD)
qed

text \<open>
  With distinct column names, what the result holds at one column is decided by the
  pair of that column alone: the pairs before it leave nothing there, the pairs after it
  do not touch it.
\<close>

lemma identify_at_column:
  assumes "i < length columns" "length record = length columns" "distinct columns"
    and "identify_sensitive_info env rm columns record = Inr info"
  shows "\<exists>info0 info1. (\<forall>r'. lookup_match info0 r' (columns ! i) = None) \<and>
           for_each (check_rule rm (active_settings env) (columns ! i) (record ! i))
             (active_rules env) info0 = Inr info1 \<and>
           (\<forall>r. lookup_match info r (columns ! i) = lookup_match info1 r (columns ! i))"
proof -
  let ?step = "\<lambda>(column, v). for_each (check_rule rm (active_settings env) column v) (active_rules env)"
  let ?pre = "zip (take i columns) (take i record)"
  let ?post = "zip (drop (Suc i) columns) (drop (Suc i) record)"
  let ?c = "columns ! i"
  have ne: "record \<noteq> []" using assms by auto
  have id: "identify_sensitive_info env rm columns record = for_each ?step (zip columns record) []"
    using ne assms(2)
    by (simp add: identify_sensitive_info_def Let_def active_settings_def active_rules_def)
  have split: "zip columns record = ?pre @ (?c, record ! i) # ?post"
    using assms(1,2) by (rule zip_split_at)
  have pre: "\<forall>p \<in> set ?pre. fst p \<noteq> ?c" and post: "\<forall>p \<in> set ?post. fst p \<noteq> ?c"
    using distinct_other_columns [OF assms(3) assms(1)] by blast+
  have run: "for_each ?step (?pre @ (?c, record ! i) # ?post) [] = Inr info"
    using assms(4) id split by simp
  obtain info0 where a: "for_each ?step ?pre [] = Inr info0"
    and b: "for_each ?step ((?c, record ! i) # ?post) info0 = Inr info"
    using for_each_append_Inr [OF run] by blast
  obtain info1 where c: "?step (?c, record ! i) info0 = Inr info1"
    and d: "for_each ?step ?post info1 = Inr info"
    using for_each_Cons_Inr [OF b] by blast
  have "\<forall>r'. lookup_match info0 r' ?c = None"
    using columns_loop_other [OF a pre] by (simp add: lookup_empty)
  moreover have "for_each (check_rule rm (active_settings env) ?c (record ! i))
             (active_rules env) info0 = Inr info1"
    using c by simp
  moreover have "\<forall>r. lookup_match info r ?c = lookup_match info1 r ?c"
    using columns_loop_other [OF d post] by simp
  ultimately show ?thesis by blast
qed

lemma active_settings_Absent:
  "get_exclude_test_data (active_settings Absent) = True"
  "get_test_patterns (active_settings Absent) = [''test'', ''demo'', ''example'', ''sample'', ''fake'']"
  "get_enabled_rules (active_settings Absent) = [rule_phone]"
  "get_case_sensitive (active_settings Absent) = False"
  "get_max_field_length (active_settings Absent) = 100"
  by (simp_all add: active_settings_def load_sensitive_rules_def get_default_rules_def get_or_def
        get_exclude_test_data_def get_test_patterns_def get_enabled_rules_def
        get_case_sensitive_def get_max_field_length_def)

lemma active_rules_Absent:
  "active_rules Absent = [(rule_phone,
         \<lparr> field_keywords = Some [''phone'', ''mobile'', ''telephone''],
           regex_patterns = Some [phone_pattern],
           description = Some desc_phone \<rparr>)]"
  by (simp add: active_rules_def load_sensitive_rules_def get_default_rules_def get_or_def)


lemma default_matcher_safe: "patterns_safe default_matcher rules"
  by (simp add: patterns_safe_def default_matcher_def phone_match_def Let_def split: prod.splits)

section \<open>A record that does not fit the columns\<close>

text \<open>
  Claim C5. When the record is empty or its length differs from the number of columns,
  \<^verbatim>\<open>identify_sensitive_info\<close> returns the empty dictionary, for every rule file and every
  matcher: no pattern is tried.
\<close>

theorem identify_length_mismatch:
  "record = [] \<or> length record \<noteq> length columns \<Longrightarrow>
   identify_sensitive_info env rm columns record = Inr []"
  by (auto simp add: identify_sensitive_info_def Let_def)

theorem identify_length_mismatch_witness:
  "([PInt 1] = [] \<or> length [PInt 1] \<noteq> length [''id'', ''phone'']) \<and>
   identify_sensitive_info Absent default_matcher [''id'', ''phone''] [PInt 1] = Inr []"
  using identify_length_mismatch [of "[PInt 1]" "[''id'', ''phone'']" Absent default_matcher]
  by simp

section \<open>Test data is left out\<close>

text \<open>
  Claim C3. Let the column names be distinct, as the columns of a table are. If the
  value of a column is not \<^verbatim>\<open>None\<close>, the exclusion of test data is enabled and the
  lower-cased, trimmed text of the value contains the lower-cased form of one configured
  marker, then the dictionary \<^verbatim>\<open>identify_sensitive_info\<close> returns has no entry for that
  column under any rule name, whatever the keywords of the rule are. It does return one
  whenever the engine raises nothing but \<^verbatim>\<open>re.error\<close> on the patterns of the rules.
\<close>

theorem identify_excludes_test_data:
  assumes "i < length columns" and "length record = length columns" and "distinct columns"
    and "record ! i \<noteq> PNone"
    and "get_exclude_test_data (active_settings env)"
    and "marker \<in> set (get_test_patterns (active_settings env))"
    and "py_in (py_lower marker) (py_lower (py_strip (py_str (record ! i))))"
  shows "(identify_sensitive_info env rm columns record = Inr info \<longrightarrow>
            lookup_match info rule_name (columns ! i) = None) \<and>
         (patterns_safe rm (active_rules env) \<longrightarrow>
            (\<exists>info'. identify_sensitive_info env rm columns record = Inr info'))"
proof -
  have td: "is_test_data (get_exclude_test_data (active_settings env))
              (get_test_patterns (active_settings env)) (py_strip (py_str (record ! i)))"
    using assms(5,6,7) by (auto simp add: is_test_data_def list_ex_iff)
  have "lookup_match info rule_name (columns ! i) = None"
    if run: "identify_sensitive_info env rm columns record = Inr info"
  proof -
    obtain info0 info1 where z: "\<forall>r'. lookup_match info0 r' (columns ! i) = None"
      and st: "for_each (check_rule rm (active_settings env) (columns ! i) (record ! i))
                 (active_rules env) info0 = Inr info1"
      and e: "\<forall>r. lookup_match info r (columns ! i) = lookup_match info1 r (columns ! i)"
      using identify_at_column [OF assms(1,2,3) run] by blast
    have "info1 = info0"
      using st by (simp add: rules_loop_test_data [OF assms(4) td])
    then show ?thesis using e z by simp
  qed
  then show ?thesis using identify_total by blast
qed

theorem identify_excludes_test_data_witness:
  "py_in (py_lower ''test'') (py_lower (py_strip (py_str (PStr ''Test13912345678'')))) \<and>
   identify_sensitive_info Absent default_matcher [''mobile'', ''phone'']
      [PStr ''13812345678'', PStr ''Test13912345678''] =
     Inr [(rule_phone, DDict [(''mobile'', column_match (PStr ''13812345678'') True True)])] \<and>
   lookup_match [(rule_phone, DDict [(''mobile'', column_match (PStr ''13812345678'') True True)])]
     rule_phone ''phone'' = None"
proof -
  let ?I = "[(rule_phone, DDict [(''mobile'', column_match (PStr ''13812345678'') True True)])]"
  have m: "py_in (py_lower ''test'') (py_lower (py_strip (py_str (PStr ''Test13912345678''))))"
    by code_simp
  have run: "identify_sensitive_info Absent default_matcher [''mobile'', ''phone'']
      [PStr ''13812345678'', PStr ''Test13912345678''] = Inr ?I"
    by code_simp
  have "(identify_sensitive_info Absent default_matcher [''mobile'', ''phone'']
      [PStr ''13812345678'', PStr ''Test13912345678''] = Inr ?I \<longrightarrow>
        lookup_match ?I rule_phone ([''mobile'', ''phone''] ! 1) = None) \<and>
     (patterns_safe default_matcher (active_rules Absent) \<longrightarrow>
        (\<exists>info'. identify_sensitive_info Absent default_matcher [''mobile'', ''phone'']
      [PStr ''13812345678'', PStr ''Test13912345678''] = Inr info'))"
    using m
    by (intro identify_excludes_test_data [where marker = "''test''"])
       (simp_all add: active_settings_Absent)
  with m run show ?thesis by simp
qed

section \<open>A null value keeps the field-name match\<close>



section \<open>The length of the values shown\<close>

lemma display_value_bound:
  "display_value v = PNone \<or> (\<exists>s. display_value v = PStr s \<and> length s \<le> 53)"
  by (cases v) (simp_all add: display_value_def Let_def)

lemma display_form_bound:
  "display_form v = PStr s \<Longrightarrow> length s \<le> 103"
  by (cases v) (auto simp add: display_form_def Let_def split: if_splits)

lemma check_rule_cases:
  "check_rule rm st column v rule info = Inr info' \<Longrightarrow>
   info' = info \<or>
   (\<exists>fm vm. info' = store_match (fst rule) column (column_match (display_value v) fm vm) info)"
  by (auto simp add: check_rule_def Let_def split: if_splits sum.splits)

lemma bounded_display_value: "bounded_match (column_match (display_value v) fm vm)"
  unfolding bounded_match_def using display_value_bound [of v] by blast

lemma check_rule_bounded:
  assumes "\<forall>r c m. lookup_match info r c = Some m \<longrightarrow> bounded_match m"
    and "check_rule rm st column v rule info = Inr info'"
  shows "\<forall>r c m. lookup_match info' r c = Some m \<longrightarrow> bounded_match m"
  using check_rule_cases [OF assms(2)] assms(1)
  by (auto simp add: lookup_store_match bounded_display_value split: if_splits)

lemma rules_loop_bounded:
  assumes "for_each (check_rule rm st column v) rules info = Inr info'"
    and "\<forall>r c m. lookup_match info r c = Some m \<longrightarrow> bounded_match m"
  shows "\<forall>r c m. lookup_match info' r c = Some m \<longrightarrow> bounded_match m"
  using assms
  by (rule for_each_invariant) (rule check_rule_bounded)

lemma columns_loop_bounded:
  assumes "for_each (\<lambda>(column, v). for_each (check_rule rm st column v) rules) ps info = Inr info'"
    and "\<forall>r c m. lookup_match info r c = Some m \<longrightarrow> bounded_match m"
  shows "\<forall>r c m. lookup_match info' r c = Some m \<longrightarrow> bounded_match m"
  using assms
proof (rule for_each_invariant)
  fix x :: "string \<times> pyval" and t t'
  assume t: "\<forall>r c m. lookup_match t r c = Some m \<longrightarrow> bounded_match m"
    and b: "(case x of (column, v) \<Rightarrow> for_each (check_rule rm st column v) rules) t = Inr t'"
  obtain column v where xv: "x = (column, v)" by (cases x)
  show "\<forall>r c m. lookup_match t' r c = Some m \<longrightarrow> bounded_match m"
    using rules_loop_bounded [of rm st column v rules t t'] b t xv by simp
qed

lemma identify_bounded:
  assumes "identify_sensitive_info env rm columns record = Inr info"
    and "lookup_match info r c = Some m"
  shows "bounded_match m"
proof -
  have z: "\<forall>r c m. lookup_match [] r c = Some m \<longrightarrow> bounded_match m"
    by (simp add: lookup_empty)
  show ?thesis
  proof (cases "record = [] \<or> length record \<noteq> length columns")
    case True
    then have "info = []" using assms(1) by (auto simp add: identify_sensitive_info_def Let_def)
    then show ?thesis using assms(2) by (simp add: lookup_empty)
  next
    case False
    then have "for_each (\<lambda>(column, v). for_each (check_rule rm (active_settings env) column v)
        (active_rules env)) (zip columns record) [] = Inr info"
      using assms(1)
      by (simp add: identify_sensitive_info_def Let_def active_settings_def active_rules_def)
    from columns_loop_bounded [OF this z] assms(2) show ?thesis by blast
  qed
qed

lemma column_value_dict_bounded:
  "map_of (column_value_dict columns record) c = Some (PStr s) \<Longrightarrow> length s \<le> 103"
proof -
  have step: "\<And>d. (\<forall>c s. map_of d c = Some (PStr s) \<longrightarrow> length s \<le> 103) \<Longrightarrow>
     (\<forall>c s. map_of (fold (\<lambda>i d. if i < length record
                  then AList.update (columns ! i) (display_form (record ! i)) d else d) js d) c
        = Some (PStr s) \<longrightarrow> length s \<le> 103)" for js
  proof (induction js)
    case Nil
    then show ?case by simp
  next
    case (Cons j js)
    show ?case
      apply (simp only: fold_simps)
      apply (rule Cons.IH)
      using Cons.prems
      by (auto simp add: AList.update_conv' dest: display_form_bound split: if_splits)
  qed
  from step [of "[]" "[0..<length columns]"]
  show "map_of (column_value_dict columns record) c = Some (PStr s) \<Longrightarrow> length s \<le> 103"
    by (simp add: column_value_dict_def)
qed

text \<open>
  Claim C2, as the code has it. The value shown in a column match of the dictionary
  \<^verbatim>\<open>identify_sensitive_info\<close> returns is \<^verbatim>\<open>None\<close> or a string of at most 53 characters
  (the first 50 and the three dots), and a string among the per-column display forms has
  at most 103 characters (the first 100 and the three dots). The function does return a
  dictionary whenever the engine raises nothing but \<^verbatim>\<open>re.error\<close> on the patterns of the
  rules.
\<close>

theorem display_values_bounded:
  "(identify_sensitive_info env rm columns record = Inr info \<and>
    lookup_match info rule_name column = Some m \<longrightarrow>
      (\<exists>dv fm vm. m = column_match dv fm vm \<and>
         (dv = PNone \<or> (\<exists>s. dv = PStr s \<and> length s \<le> 53)))) \<and>
   (map_of (column_value_dict columns record) column = Some (PStr s) \<longrightarrow> length s \<le> 103) \<and>
   (patterns_safe rm (active_rules env) \<longrightarrow>
      (\<exists>info'. identify_sensitive_info env rm columns record = Inr info'))"
  using identify_bounded [of env rm columns "record" info rule_name column m]
    column_value_dict_bounded [of columns "record" column s]
    identify_total [of rm env columns "record"]
  by (auto simp add: bounded_match_def)

theorem display_values_bounded_witness:
  "identify_sensitive_info Absent default_matcher [''phone''] [PStr (replicate 51 CHR ''1'')] =
     Inr [(rule_phone,
           DDict [(''phone'', column_match (PStr (replicate 50 CHR ''1'' @ ''...'')) True False)])] \<and>
   length (replicate 50 CHR ''1'' @ ''...'') \<le> 53 \<and>
   map_of (column_value_dict [''phone''] [PStr (replicate 51 CHR ''1'')]) ''phone'' =
     Some (PStr (replicate 51 CHR ''1'')) \<and>
   length (replicate 51 CHR ''1'') \<le> 103"
proof -
  let ?I = "[(rule_phone,
           DDict [(''phone'', column_match (PStr (replicate 50 CHR ''1'' @ ''...'')) True False)])]"
  have a: "identify_sensitive_info Absent default_matcher [''phone'']
      [PStr (replicate 51 CHR ''1'')] = Inr ?I"
    by code_simp
  have l: "lookup_match ?I rule_phone ''phone'' =
      Some (column_match (PStr (replicate 50 CHR ''1'' @ ''...'')) True False)"
    by code_simp
  have b: "map_of (column_value_dict [''phone''] [PStr (replicate 51 CHR ''1'')]) ''phone'' =
     Some (PStr (replicate 51 CHR ''1''))"
    by code_simp
  from a l b display_values_bounded [of Absent default_matcher "[''phone'']"
      "[PStr (replicate 51 CHR ''1'')]" ?I rule_phone "''phone''"
      "column_match (PStr (replicate 50 CHR ''1'' @ ''...'')) True False" "replicate 51 CHR ''1''"]
  show ?thesis by simp
qed

text \<open>
  Claim C2 as stated fails: a value of 51 characters is shown with 53, above the cap of
  50, and a value of 101 characters gets a display form of 103, above the cap of 100.
\<close>

theorem display_value_exceeds_cap:
  "identify_sensitive_info Absent default_matcher [''phone''] [PStr (replicate 51 CHR ''1'')] =
     Inr [(rule_phone,
           DDict [(''phone'', column_match (PStr (replicate 50 CHR ''1'' @ ''...'')) True False)])] \<and>
   \<not> length (replicate 50 CHR ''1'' @ ''...'') \<le> 50 \<and>
   map_of (column_value_dict [''note''] [PStr (replicate 101 CHR ''a'')]) ''note'' =
     Some (PStr (replicate 100 CHR ''a'' @ ''...'')) \<and>
   \<not> length (replicate 100 CHR ''a'' @ ''...'') \<le> 100"
  by code_simp

section \<open>Confirmation\<close>

lemma field_confirms_sound:
  "field_confirms rm ps fi = Inr True \<Longrightarrow> entry_revalidates rm ps fi"
  by (auto simp add: field_confirms_def entry_revalidates_def
        dest: value_pattern_match_sound split: field_info.splits option.splits pyval.splits)

lemma field_confirms_total:
  "\<forall>p \<in> set ps. \<forall>s e. rm p s \<noteq> ReRaised e \<Longrightarrow>
   field_confirms rm ps fi = Inr (entry_revalidates rm ps fi)"
  by (auto simp add: field_confirms_def entry_revalidates_def value_pattern_match_total
        split: field_info.splits option.splits pyval.splits)

lemma confirm_fields_sound:
  "confirm_fields rm ps fs = Inr True \<Longrightarrow> \<exists>(c, fi) \<in> set fs. entry_revalidates rm ps fi"
proof (induction fs)
  case Nil
  then show ?case by simp
next
  case (Cons a fs)
  obtain c fi where a: "a = (c, fi)" by (cases a)
  show ?case
  proof (cases "field_confirms rm ps fi")
    case (Inl e)
    then show ?thesis using Cons.prems a by simp
  next
    case (Inr b)
    show ?thesis
    proof (cases b)
      case True
      then show ?thesis using Inr a field_confirms_sound [of rm ps fi] by simp
    next
      case False
      then show ?thesis using Inr a Cons by simp
    qed
  qed
qed

lemma confirm_fields_total:
  assumes "\<forall>p \<in> set ps. \<forall>s e. rm p s \<noteq> ReRaised e"
  shows "confirm_fields rm ps fs = Inr (\<exists>(c, fi) \<in> set fs. entry_revalidates rm ps fi)"
proof (induction fs)
  case Nil
  then show ?case by simp
next
  case (Cons a fs)
  obtain c fi where a: "a = (c, fi)" by (cases a)
  show ?case
    using Cons.IH
    by (cases "entry_revalidates rm ps fi") (simp_all add: a field_confirms_total [OF assms])
qed

lemma revalidates_Nil: "\<not> revalidates rm rules []"
  by (simp add: revalidates_def)

lemma revalidates_Cons:
  "revalidates rm rules ((r, d) # rest) \<longleftrightarrow>
     (\<exists>cfg fs. map_of rules r = Some cfg \<and> d = DDict fs \<and>
        (\<exists>(c, fi) \<in> set fs. entry_revalidates rm (get_or (regex_patterns cfg) []) fi))
     \<or> revalidates rm rules rest"
  unfolding revalidates_def entry_revalidates_def
  by (auto; blast)

lemma confirm_loop_sound:
  "confirm_loop rm rules info = Inr True \<Longrightarrow> revalidates rm rules info"
proof (induction info)
  case Nil
  then show ?case by simp
next
  case (Cons a info)
  obtain r d where a: "a = (r, d)" by (cases a)
  show ?case
  proof (cases "map_of rules r")
    case None
    then show ?thesis using Cons a by (simp add: revalidates_Cons)
  next
    case (Some cfg)
    show ?thesis
    proof (cases d)
      case (DNotDict x)
      then show ?thesis using Cons.prems a Some by simp
    next
      case (DDict fs)
      show ?thesis
      proof (cases "confirm_fields rm (get_or (regex_patterns cfg) []) fs")
        case (Inl e)
        then show ?thesis using Cons.prems a Some DDict by simp
      next
        case (Inr b)
        show ?thesis
        proof (cases b)
          case True
          then have "\<exists>(c, fi) \<in> set fs. entry_revalidates rm (get_or (regex_patterns cfg) []) fi"
            using Inr confirm_fields_sound [of rm "get_or (regex_patterns cfg) []" fs] by simp
          then show ?thesis using a Some DDict by (auto simp add: revalidates_Cons)
        next
          case False
          then have "confirm_loop rm rules info = Inr True"
            using Cons.prems a Some DDict Inr by simp
          then show ?thesis using Cons.IH a by (simp add: revalidates_Cons)
        qed
      qed
    qed
  qed
qed

lemma confirm_loop_total:
  assumes "patterns_safe rm rules"
  shows "\<forall>(r, d) \<in> set info. r \<in> dom (map_of rules) \<longrightarrow> is_ddict d \<Longrightarrow>
   confirm_loop rm rules info = Inr (revalidates rm rules info)"
proof (induction info)
  case Nil
  then show ?case by (simp add: revalidates_Nil)
next
  case (Cons a info)
  obtain r d where a: "a = (r, d)" by (cases a)
  have IH: "confirm_loop rm rules info = Inr (revalidates rm rules info)"
    using Cons by simp
  show ?case
  proof (cases "map_of rules r")
    case None
    then show ?thesis by (simp add: a IH revalidates_Cons)
  next
    case (Some cfg)
    then have "is_ddict d" using Cons.prems a by auto
    then obtain fs where d: "d = DDict fs" by (cases d) auto
    have "(r, cfg) \<in> set rules" using Some by (rule map_of_SomeD)
    then have safe: "\<forall>p \<in> set (get_or (regex_patterns cfg) []). \<forall>s e. rm p s \<noteq> ReRaised e"
      using patterns_safeD [OF assms] by blast
    show ?thesis
      by (simp add: a d Some IH revalidates_Cons confirm_fields_total [OF safe] split: bool.splits)
  qed
qed

lemma yes_neq_no: "confirmed_yes \<noteq> confirmed_no"
  by (simp add: confirmed_yes_def confirmed_no_def)

lemma confirm_sound:
  "confirm_sensitive_data env rm info = Inr confirmed_yes \<Longrightarrow>
   revalidates rm (active_rules env) info"
  using yes_neq_no confirm_loop_sound [of rm "active_rules env" info]
  by (auto simp add: confirm_sensitive_data_def Let_def active_rules_def
        split: if_splits sum.splits bool.splits)

lemma confirm_total:
  assumes "\<forall>(r, d) \<in> set info. r \<in> dom (map_of (active_rules env)) \<longrightarrow> is_ddict d"
    and "patterns_safe rm (active_rules env)"
  shows "confirm_sensitive_data env rm info =
           Inr (if revalidates rm (active_rules env) info then confirmed_yes else confirmed_no)"
proof (cases "info = []")
  case True
  then show ?thesis by (simp add: confirm_sensitive_data_def revalidates_Nil)
next
  case False
  then show ?thesis
    using confirm_loop_total [OF assms(2) assms(1)]
    by (simp add: confirm_sensitive_data_def Let_def active_rules_def)
qed

lemma classification_dicts:
  "is_classification info \<Longrightarrow> \<forall>(r, d) \<in> set info. P r \<longrightarrow> is_ddict d"
  by (auto simp add: is_classification_def list_all_iff)

text \<open>
  Claim C1, as the code has it. For every classification result: when
  \<^verbatim>\<open>confirm_sensitive_data\<close> returns the string U+662F then, under a rule name present in
  the active rule set, some column match holds a value other than \<^verbatim>\<open>None\<close> whose trimmed
  text matches one of the patterns of that rule; and when the engine raises nothing but
  \<^verbatim>\<open>re.error\<close> on the patterns of the rules, the converse holds too and every other
  result is the string U+5426. So a match whose stored value does not match again never
  confirms. The stored \<^verbatim>\<open>field_match\<close> and \<^verbatim>\<open>value_match\<close> entries do not occur in the
  condition: they are not read.
\<close>

theorem confirm_iff_revalidates:
  assumes "is_classification info"
  shows "(confirm_sensitive_data env rm info = Inr confirmed_yes \<longrightarrow>
           (\<exists>rule_name fs cfg column d v pattern.
              (rule_name, DDict fs) \<in> set info \<and>
              map_of (active_rules env) rule_name = Some cfg \<and>
              (column, FDict d) \<in> set fs \<and> map_of d ''value'' = Some v \<and> v \<noteq> PNone \<and>
              pattern \<in> set (get_or (regex_patterns cfg) []) \<and>
              rm pattern (py_strip (py_str v)) = Matched)) \<and>
         (patterns_safe rm (active_rules env) \<longrightarrow>
           ((\<exists>rule_name fs cfg column d v pattern.
              (rule_name, DDict fs) \<in> set info \<and>
              map_of (active_rules env) rule_name = Some cfg \<and>
              (column, FDict d) \<in> set fs \<and> map_of d ''value'' = Some v \<and> v \<noteq> PNone \<and>
              pattern \<in> set (get_or (regex_patterns cfg) []) \<and>
              rm pattern (py_strip (py_str v)) = Matched) \<longrightarrow>
            confirm_sensitive_data env rm info = Inr confirmed_yes) \<and>
           (confirm_sensitive_data env rm info \<noteq> Inr confirmed_yes \<longrightarrow>
            confirm_sensitive_data env rm info = Inr confirmed_no))"
proof -
  let ?Y = "confirm_sensitive_data env rm info = Inr confirmed_yes"
  let ?N = "confirm_sensitive_data env rm info = Inr confirmed_no"
  let ?R = "revalidates rm (active_rules env) info"
  have taut: "\<And>Y R S N C. (Y \<longrightarrow> R) \<Longrightarrow> (S \<longrightarrow> R \<longrightarrow> Y) \<Longrightarrow> (S \<longrightarrow> \<not> R \<longrightarrow> N) \<Longrightarrow> (R \<longleftrightarrow> C) \<Longrightarrow>
      (Y \<longrightarrow> C) \<and> (S \<longrightarrow> (C \<longrightarrow> Y) \<and> (\<not> Y \<longrightarrow> N))"
    by blast
  have a: "?Y \<longrightarrow> ?R"
    using confirm_sound by blast
  have t: "patterns_safe rm (active_rules env) \<Longrightarrow>
      confirm_sensitive_data env rm info = Inr (if ?R then confirmed_yes else confirmed_no)"
    by (rule confirm_total [OF classification_dicts [OF assms]])
  have b1: "patterns_safe rm (active_rules env) \<longrightarrow> ?R \<longrightarrow> ?Y"
    using t by simp
  have b2: "patterns_safe rm (active_rules env) \<longrightarrow> \<not> ?R \<longrightarrow> ?N"
    using t by simp
  have c: "?R \<longleftrightarrow>
           (\<exists>rule_name fs cfg column d v pattern.
              (rule_name, DDict fs) \<in> set info \<and>
              map_of (active_rules env) rule_name = Some cfg \<and>
              (column, FDict d) \<in> set fs \<and> map_of d ''value'' = Some v \<and> v \<noteq> PNone \<and>
              pattern \<in> set (get_or (regex_patterns cfg) []) \<and>
              rm pattern (py_strip (py_str v)) = Matched)"
    by (simp only: revalidates_def)
  show ?thesis
    by (rule taut [OF a b1 b2 c])
qed

theorem confirm_iff_revalidates_witness:
  "is_classification
     [(rule_phone, DDict [(''phone'', column_match (PStr ''13812345678'') True True)])] \<and>
   confirm_sensitive_data Absent default_matcher
     [(rule_phone, DDict [(''phone'', column_match (PStr ''13812345678'') True True)])] =
     Inr confirmed_yes \<and>
   (\<exists>rule_name fs cfg column d v pattern.
      (rule_name, DDict fs) \<in>
        set [(rule_phone, DDict [(''phone'', column_match (PStr ''13812345678'') True True)])] \<and>
      map_of (active_rules Absent) rule_name = Some cfg \<and>
      (column, FDict d) \<in> set fs \<and> map_of d ''value'' = Some v \<and> v \<noteq> PNone \<and>
      pattern \<in> set (get_or (regex_patterns cfg) []) \<and>
      default_matcher pattern (py_strip (py_str v)) = Matched)"
proof -
  let ?I = "[(rule_phone, DDict [(''phone'', column_match (PStr ''13812345678'') True True)])]"
  have ic: "is_classification ?I"
    by (simp add: is_classification_def)
  have c: "confirm_sensitive_data Absent default_matcher ?I = Inr confirmed_yes"
    by code_simp
  from confirm_iff_revalidates [OF ic, of Absent default_matcher] c ic
  show ?thesis by blast
qed

text \<open>
  Claim C1 as stated fails in its last part: a column match whose stored
  \<^verbatim>\<open>value_match\<close> is false is confirmed when its value matches the pattern.
\<close>

theorem confirm_ignores_stored_value_match:
  "confirm_sensitive_data Absent default_matcher
     [(rule_phone, DDict [(''phone'', column_match (PStr ''13812345678'') True False)])] =
     Inr confirmed_yes \<and>
   column_match (PStr ''13812345678'') True False =
     FDict [(''value'', PStr ''13812345678''), (''field_match'', PBool True),
            (''value_match'', PBool False)]"
  by code_simp

text \<open>
  Claim C10, as the code has it. When every value stored under a rule name of the
  active rule set is a dictionary and the engine raises nothing but \<^verbatim>\<open>re.error\<close> on the
  patterns of the rules, \<^verbatim>\<open>confirm_sensitive_data\<close> raises nothing and returns one of
  the two strings. For every matcher: a rule name absent from the rule set is passed
  over whatever it holds, an entry that is not a dictionary is passed over, an entry
  whose value is missing or \<^verbatim>\<open>None\<close> is passed over, and a pattern that raises
  \<^verbatim>\<open>re.error\<close> is passed over; any other exception of the engine leaves the pattern loop,
  and when the loop over the rule names comes to a name of the rule set whose value is
  not a dictionary, \<^verbatim>\<open>AttributeError\<close> is raised.
\<close>

theorem confirm_returns_yes_or_no:
  assumes "\<forall>(rule_name, d) \<in> set info.
             rule_name \<in> dom (map_of (active_rules env)) \<longrightarrow> is_ddict d"
    and "patterns_safe rm (active_rules env)"
  shows "(confirm_sensitive_data env rm info = Inr confirmed_yes \<or>
          confirm_sensitive_data env rm info = Inr confirmed_no) \<and>
         (map_of rules rule_name = None \<longrightarrow>
            confirm_loop rm' rules ((rule_name, any) # rest) = confirm_loop rm' rules rest) \<and>
         confirm_fields rm' patterns ((column, FNotDict x) # others) =
           confirm_fields rm' patterns others \<and>
         (map_of fd ''value'' = None \<or> map_of fd ''value'' = Some PNone \<longrightarrow>
            confirm_fields rm' patterns ((column, FDict fd) # others) =
              confirm_fields rm' patterns others) \<and>
         (rm' pattern s = ReError \<longrightarrow>
            value_pattern_match rm' (pattern # patterns) s = value_pattern_match rm' patterns s) \<and>
         (rm' pattern s = ReRaised e \<longrightarrow>
            value_pattern_match rm' (pattern # patterns) s = Inl e) \<and>
         (map_of rules rule_name = Some cfg \<longrightarrow>
            confirm_loop rm' rules ((rule_name, DNotDict x) # rest) = Inl AttributeError)"
proof -
  have c1: "confirm_sensitive_data env rm info = Inr confirmed_yes \<or>
          confirm_sensitive_data env rm info = Inr confirmed_no"
    by (simp add: confirm_total [OF assms])
  have c2: "map_of rules rule_name = None \<longrightarrow>
            confirm_loop rm' rules ((rule_name, any) # rest) = confirm_loop rm' rules rest"
    by simp
  have c3: "confirm_fields rm' patterns ((column, FNotDict x) # others) =
           confirm_fields rm' patterns others"
    by (simp add: field_confirms_def)
  have c4: "map_of fd ''value'' = None \<or> map_of fd ''value'' = Some PNone \<longrightarrow>
            confirm_fields rm' patterns ((column, FDict fd) # others) =
              confirm_fields rm' patterns others"
    by (auto simp add: field_confirms_def)
  have c5: "rm' pattern s = ReError \<longrightarrow>
            value_pattern_match rm' (pattern # patterns) s = value_pattern_match rm' patterns s"
    by simp
  have c6: "rm' pattern s = ReRaised e \<longrightarrow>
            value_pattern_match rm' (pattern # patterns) s = Inl e"
    by simp
  have c7: "map_of rules rule_name = Some cfg \<longrightarrow>
            confirm_loop rm' rules ((rule_name, DNotDict x) # rest) = Inl AttributeError"
    by simp
  show ?thesis
    by (intro conjI; fact)
qed

theorem confirm_returns_yes_or_no_witness:
  "confirm_sensitive_data Absent default_matcher
     [(''unknown'', DNotDict (PInt 7)),
      (rule_phone, DDict [(''a'', FNotDict (PInt 1)), (''b'', FDict [(''value'', PNone)]),
                          (''c'', FDict [(''value'', PStr ''x'')])])] = Inr confirmed_no"
proof -
  let ?I = "[(''unknown'', DNotDict (PInt 7)),
      (rule_phone, DDict [(''a'', FNotDict (PInt 1)), (''b'', FDict [(''value'', PNone)]),
                          (''c'', FDict [(''value'', PStr ''x'')])])]"
  have h: "\<forall>(rule_name, d) \<in> set ?I.
      rule_name \<in> dom (map_of (active_rules Absent)) \<longrightarrow> is_ddict d"
    by (simp add: active_rules_Absent rule_phone_def)
  have n: "confirm_sensitive_data Absent default_matcher ?I \<noteq> Inr confirmed_yes"
    by code_simp
  from confirm_returns_yes_or_no [OF h default_matcher_safe] n
  show ?thesis by blast
qed

text \<open>
  Claim C10 as stated fails: under a rule name of the rule set, a value that is not a
  dictionary makes \<^verbatim>\<open>detected_fields.items()\<close> raise \<^verbatim>\<open>AttributeError\<close>; and a pattern on
  which the engine raises \<^verbatim>\<open>OverflowError\<close> makes the function raise it, the \<^verbatim>\<open>except\<close>
  clause catching \<^verbatim>\<open>re.error\<close> only.
\<close>

theorem confirm_can_raise:
  "confirm_sensitive_data Absent default_matcher [(rule_phone, DNotDict (PStr ''abc''))] =
     Inl AttributeError \<and>
   confirm_sensitive_data (Loaded overflow_rules) overflow_matcher
     [(rule_phone, DDict [(''phone'', column_match (PStr ''13812345678'') True True)])] =
     Inl OverflowError"
  by code_simp

section \<open>The order of the findings\<close>

lemma risk_priority_values:
  "risk_priority lit_high = 1" "risk_priority lit_medium = 2" "risk_priority lit_low = 3"
  "lv \<noteq> lit_high \<Longrightarrow> lv \<noteq> lit_medium \<Longrightarrow> lv \<noteq> lit_low \<Longrightarrow> risk_priority lv = 99"
  by (simp_all add: risk_priority_def lit_high_def lit_medium_def lit_low_def)

text \<open>
  Claim C6. The list \<^verbatim>\<open>_generate_audit_summary\<close> returns is sorted by the key made of
  the severity rank and the risk type, that is by rank first and by risk type among
  equal ranks; the findings of equal key keep the order in which they were appended, and
  the list is a permutation of the findings appended. The rank is 1 for high, 2 for
  medium, 3 for low and 99 for any other level.
\<close>

theorem summary_sorted_stable:
  "sorted (map finding_key (generate_audit_summary jl users dbs)) \<and>
   (\<forall>k. filter (\<lambda>x. finding_key x = k) (generate_audit_summary jl users dbs) =
        filter (\<lambda>x. finding_key x = k) (emitted_findings jl users dbs)) \<and>
   mset (generate_audit_summary jl users dbs) = mset (emitted_findings jl users dbs) \<and>
   (finding_key x \<le> finding_key y \<longleftrightarrow>
      risk_priority (risk_level x) < risk_priority (risk_level y) \<or>
      (risk_priority (risk_level x) = risk_priority (risk_level y) \<and> risk_type x \<le> risk_type y)) \<and>
   risk_priority lit_high = 1 \<and> risk_priority lit_medium = 2 \<and> risk_priority lit_low = 3 \<and>
   (lv \<noteq> lit_high \<and> lv \<noteq> lit_medium \<and> lv \<noteq> lit_low \<longrightarrow> risk_priority lv = 99)"
proof -
  have a: "sorted (map finding_key (generate_audit_summary jl users dbs))"
    by (simp add: generate_audit_summary_def)
  have b: "\<forall>k. filter (\<lambda>x. finding_key x = k) (generate_audit_summary jl users dbs) =
        filter (\<lambda>x. finding_key x = k) (emitted_findings jl users dbs)"
    by (simp add: generate_audit_summary_def sort_key_stable)
  have c: "mset (generate_audit_summary jl users dbs) = mset (emitted_findings jl users dbs)"
    by (simp add: generate_audit_summary_def)
  have d: "finding_key x \<le> finding_key y \<longleftrightarrow>
      risk_priority (risk_level x) < risk_priority (risk_level y) \<or>
      (risk_priority (risk_level x) = risk_priority (risk_level y) \<and> risk_type x \<le> risk_type y)"
    by (auto simp add: finding_key_def)
  have e: "risk_priority lit_high = 1 \<and> risk_priority lit_medium = 2 \<and> risk_priority lit_low = 3 \<and>
     (lv \<noteq> lit_high \<and> lv \<noteq> lit_medium \<and> lv \<noteq> lit_low \<longrightarrow> risk_priority lv = 99)"
    by (simp add: risk_priority_values)
  from a b c d e show ?thesis
    by blast
qed

theorem summary_sorted_stable_witness:
  "generate_audit_summary (\<lambda>t. None) [example_app, example_root] [] =
     [high_risk_finding example_root, high_risk_finding example_app,
      wildcard_finding example_app, wildcard_finding example_root] \<and>
   emitted_findings (\<lambda>t. None) [example_app, example_root] [] =
     [high_risk_finding example_app, wildcard_finding example_app,
      high_risk_finding example_root, wildcard_finding example_root] \<and>
   sorted (map finding_key (generate_audit_summary (\<lambda>t. None) [example_app, example_root] []))"
proof -
  have a: "generate_audit_summary (\<lambda>t. None) [example_app, example_root] [] =
     [high_risk_finding example_root, high_risk_finding example_app,
      wildcard_finding example_app, wildcard_finding example_root]"
    by code_simp
  have b: "emitted_findings (\<lambda>t. None) [example_app, example_root] [] =
     [high_risk_finding example_app, wildcard_finding example_app,
      high_risk_finding example_root, wildcard_finding example_root]"
    by code_simp
  have c: "sorted (map finding_key (generate_audit_summary (\<lambda>t. None) [example_app, example_root] []))"
    using summary_sorted_stable [of "\<lambda>t. None" "[example_app, example_root]" "[]"] by blast
  from a b c show ?thesis by blast
qed

section \<open>The findings of one user\<close>

lemma holds_super:
  "priv_super \<in> set (user_high_risks user) \<longleftrightarrow> holds user priv_super"
  by (auto simp add: user_high_risks_def high_risk_permissions_def)

lemma user_high_risks_nonempty:
  "user_high_risks user \<noteq> [] \<longleftrightarrow> (\<exists>p \<in> set high_risk_permissions. holds user p)"
  by (auto simp add: user_high_risks_def filter_empty_conv)

lemma wildcard_host_iff:
  "wildcard_host user \<longleftrightarrow>
     user_get user key_host = PStr ''%'' \<and> (\<exists>p \<in> set data_permissions. holds user p)"
  by (simp add: wildcard_host_def list_ex_iff)

lemma user_findings_emitted:
  "user \<in> set users \<Longrightarrow> set (user_findings user) \<subseteq> set (generate_audit_summary jl users dbs)"
  by (auto simp add: generate_audit_summary_def emitted_findings_def)

text \<open>
  Claim C7. For a user of the list: if the user holds one of the eight high-risk
  privileges, the high-risk finding of the user is in the summary, and its level is high
  when the super privilege is held and medium otherwise; if the host is \<^verbatim>\<open>%\<close> and the
  user holds one of select, insert, update and delete, the wildcard-host finding of the
  user is in the summary, with level medium. The two findings differ, the loop body
  appends exactly these, and each condition is tested on its own, so both may be
  appended for one user.
\<close>

theorem user_privilege_findings:
  assumes "user \<in> set users"
  shows "((\<exists>p \<in> set high_risk_permissions. holds user p) \<longrightarrow>
            high_risk_finding user \<in> set (generate_audit_summary jl users dbs) \<and>
            risk_level (high_risk_finding user) =
              (if holds user priv_super then lit_high else lit_medium)) \<and>
         (user_get user key_host = PStr ''%'' \<and> (\<exists>p \<in> set data_permissions. holds user p) \<longrightarrow>
            wildcard_finding user \<in> set (generate_audit_summary jl users dbs) \<and>
            risk_level (wildcard_finding user) = lit_medium) \<and>
         user_findings user =
           (if \<exists>p \<in> set high_risk_permissions. holds user p then [high_risk_finding user] else []) @
           (if user_get user key_host = PStr ''%'' \<and> (\<exists>p \<in> set data_permissions. holds user p)
            then [wildcard_finding user] else []) \<and>
         high_risk_finding user \<noteq> wildcard_finding user \<and>
         lit_high \<noteq> lit_medium"
proof -
  have a: "user_findings user =
           (if \<exists>p \<in> set high_risk_permissions. holds user p then [high_risk_finding user] else []) @
           (if user_get user key_host = PStr ''%'' \<and> (\<exists>p \<in> set data_permissions. holds user p)
            then [wildcard_finding user] else [])"
    by (simp only: user_findings_def user_high_risks_nonempty wildcard_host_iff)
  have b: "risk_level (high_risk_finding user) =
              (if holds user priv_super then lit_high else lit_medium)"
    by (simp add: high_risk_finding_def holds_super)
  have c: "risk_level (wildcard_finding user) = lit_medium"
    by (simp add: wildcard_finding_def)
  have "sensitive_type (high_risk_finding user) \<noteq> sensitive_type (wildcard_finding user)"
    by (simp add: high_risk_finding_def wildcard_finding_def lit_db_priv_def lit_host_priv_def)
  then have d: "high_risk_finding user \<noteq> wildcard_finding user" by auto
  have e: "lit_high \<noteq> lit_medium" by (simp add: lit_high_def lit_medium_def)
  have s: "set (user_findings user) \<subseteq> set (generate_audit_summary jl users dbs)"
    using assms by (rule user_findings_emitted)
  show ?thesis
    using a b c d e s by auto
qed

theorem user_privilege_findings_witness:
  "example_root \<in> set [example_app, example_root] \<and>
   (\<exists>p \<in> set high_risk_permissions. holds example_root p) \<and> holds example_root priv_super \<and>
   user_get example_root key_host = PStr ''%'' \<and> (\<exists>p \<in> set data_permissions. holds example_root p) \<and>
   high_risk_finding example_root \<in> set (generate_audit_summary (\<lambda>t. None) [example_app, example_root] []) \<and>
   risk_level (high_risk_finding example_root) = lit_high \<and>
   wildcard_finding example_root \<in> set (generate_audit_summary (\<lambda>t. None) [example_app, example_root] []) \<and>
   risk_level (wildcard_finding example_root) = lit_medium"
proof -
  have m: "example_root \<in> set [example_app, example_root]" by simp
  have h1: "\<exists>p \<in> set high_risk_permissions. holds example_root p" by code_simp
  have h2: "holds example_root priv_super" by code_simp
  have h3: "user_get example_root key_host = PStr ''%''" by code_simp
  have h4: "\<exists>p \<in> set data_permissions. holds example_root p" by code_simp
  from user_privilege_findings [OF m, of "\<lambda>t. None" "[]"] h1 h2 h3 h4 m
  show ?thesis by simp
qed

end
